theory Spec2Isabelle
  imports Complex_Main "HOL-Library.Multiset"
begin

section \<open>Common conventions\<close>

text \<open>
  A C++ \<open>double\<close> is modelled as a \<open>real\<close> and the arithmetic is exact, except in the
  model of the exponential fit in double arithmetic, where every operation rounds.
  Where the source would produce a value that is not a real number (a division by zero),
  would read outside a container or would build a container of negative size, the model
  returns an \<open>error\<close>.

  A measurement file is modelled after \<open>readAll().split('\n')\<close>, the split of every line
  on whitespace and \<open>QString::toDouble\<close> on every field: a file is a list of rows, a row
  is the list of its flds as numbers. \<open>QString::toDouble\<close> never fails (unparseable
  text is \<open>0.0\<close>), so converting every field before counting the flds does not change
  the result. A path the file system cannot open maps to \<open>None\<close>.
\<close>

datatype error = OutOfBounds | DivisionByZero | NegativeSize

type_synonym row = "real list"
type_synonym file_system = "string \<Rightarrow> row list option"

text \<open>
  \<open>std::sort(first, last, [](a, b) { return key(a) < key(b); })\<close> is a function of the
  C++ standard library, not of this repository. It is a parameter \<open>srt\<close> of the model,
  applied to the key function, and the only facts used about it are the ones the C++
  standard promises: the result is a permutation of the input and is ordered by the
  comparator. The standard leaves the relative order of equivalent elements open.
\<close>

type_synonym 'a std_sort = "('a \<Rightarrow> real) \<Rightarrow> 'a list \<Rightarrow> 'a list"

definition std_sort_contract :: "'a std_sort \<Rightarrow> bool" where
  "std_sort_contract srt \<longleftrightarrow>
     (\<forall>key xs. mset (srt key xs) = mset xs \<and> sorted (map key (srt key xs)))"

subsection \<open>The \<open>std::sort\<close> of GNU libstdc++\<close>

text \<open>
  One \<open>std::sort\<close> that programs are linked with: \<open>std::__sort\<close> of GNU libstdc++
  (\<open>bits/stl_algo.h\<close>), an introsort. It partitions ranges of more than 16 elements
  around the median of three and finishes with an insertion sort. The array is the list
  \<open>xs\<close>; \<open>lo\<close> and \<open>hi\<close> are the positions of the iterators \<open>__first\<close> and \<open>__last\<close>,
  and \<open>comp(a, b)\<close> is \<open>key a < key b\<close>.

  The loops of \<open>__unguarded_partition\<close> and \<open>__unguarded_linear_insert\<close> carry no bound
  check in the library: the pivot and the smallest element stop them inside the range.
  The model stops them at the ends of the list as well. The heap sort that the library
  falls back to when the depth limit is used up (\<open>std::__partial_sort\<close>) is a parameter
  \<open>heap\<close>.
\<close>

definition iter_swap :: "nat \<Rightarrow> nat \<Rightarrow> 'a list \<Rightarrow> 'a list" where
  "iter_swap i j xs = xs[i := xs ! j, j := xs ! i]"

definition move_median_to_first ::
  "('a \<Rightarrow> real) \<Rightarrow> nat \<Rightarrow> nat \<Rightarrow> nat \<Rightarrow> nat \<Rightarrow> 'a list \<Rightarrow> 'a list" where
  "move_median_to_first key result a b c xs =
     (let comp = (\<lambda>i j. key (xs ! i) < key (xs ! j))
      in if comp a b
         then (if comp b c then iter_swap result b xs
               else if comp a c then iter_swap result c xs
               else iter_swap result a xs)
         else if comp a c then iter_swap result a xs
         else if comp b c then iter_swap result c xs
         else iter_swap result b xs)"

text \<open>\<open>while (comp(first, pivot)) ++first;\<close>\<close>

function scan_up :: "('a \<Rightarrow> real) \<Rightarrow> 'a list \<Rightarrow> nat \<Rightarrow> nat \<Rightarrow> nat" where
  "scan_up key xs pivot lo =
     (if lo < length xs \<and> key (xs ! lo) < key (xs ! pivot)
      then scan_up key xs pivot (Suc lo) else lo)"
  by pat_completeness auto
termination
  by (relation "measure (\<lambda>(key, xs, pivot, lo). length xs - lo)") auto

text \<open>\<open>while (comp(pivot, last)) --last;\<close>\<close>

fun scan_down :: "('a \<Rightarrow> real) \<Rightarrow> 'a list \<Rightarrow> nat \<Rightarrow> nat \<Rightarrow> nat" where
  "scan_down key xs pivot hi =
     (if 0 < hi \<and> key (xs ! pivot) < key (xs ! hi) then scan_down key xs pivot (hi - 1) else hi)"

declare scan_up.simps [simp del] scan_down.simps [simp del]

text \<open>\<open>__unguarded_partition\<close> returns the cut; the model returns the array with it.\<close>

function unguarded_partition ::
  "('a \<Rightarrow> real) \<Rightarrow> nat \<Rightarrow> nat \<Rightarrow> nat \<Rightarrow> 'a list \<Rightarrow> nat \<times> 'a list" where
  "unguarded_partition key pivot lo hi xs =
     (let lo' = scan_up key xs pivot lo
      in if hi = 0 then (lo', xs)
         else let hi' = scan_down key xs pivot (hi - 1)
              in if lo' < hi'
                 then unguarded_partition key pivot (Suc lo') hi' (iter_swap lo' hi' xs)
                 else (lo', xs))"
  by pat_completeness auto
termination
proof (relation "measure (\<lambda>(key, pivot, lo, hi, xs). hi)")
  show "wf (measure (\<lambda>(key, pivot, lo, hi, xs). hi))"
    by simp
next
  fix key :: "'a \<Rightarrow> real" and pivot lo hi :: nat and xs :: "'a list" and x xa
  assume "hi \<noteq> 0" and "xa = scan_down key xs pivot (hi - 1)"
  moreover have "scan_down key xs pivot l \<le> l" for l
  proof (induction key xs pivot l rule: scan_down.induct)
    case (1 key xs pivot hi)
    then show ?case
      by (subst scan_down.simps) auto
  qed
  then have "scan_down key xs pivot (hi - 1) \<le> hi - 1" .
  ultimately have "xa < hi"
    by linarith
  then show "((key, pivot, Suc x, xa, iter_swap x xa xs), key, pivot, lo, hi, xs)
        \<in> measure (\<lambda>(key, pivot, lo, hi, xs). hi)"
    by simp
qed

declare unguarded_partition.simps [simp del]

definition unguarded_partition_pivot ::
  "('a \<Rightarrow> real) \<Rightarrow> nat \<Rightarrow> nat \<Rightarrow> 'a list \<Rightarrow> nat \<times> 'a list" where
  "unguarded_partition_pivot key lo hi xs =
     (let mid = lo + (hi - lo) div 2
      in unguarded_partition key lo (lo + 1) hi
           (move_median_to_first key lo (lo + 1) mid (hi - 1) xs))"

text \<open>The fallback \<open>std::__partial_sort(first, last, last)\<close> sorts the range \<open>lo..<hi\<close>.\<close>

definition sort_range :: "'a std_sort \<Rightarrow> ('a \<Rightarrow> real) \<Rightarrow> nat \<Rightarrow> nat \<Rightarrow> 'a list \<Rightarrow> 'a list" where
  "sort_range heap key lo hi xs =
     take lo xs @ heap key (take (hi - lo) (drop lo xs)) @ drop hi xs"

text \<open>
  \<open>__introsort_loop\<close>: the recursive call sorts the part from the cut on, the next round
  of the \<open>while\<close> loop the part before it, both with the decremented depth limit.
\<close>

fun introsort_loop ::
  "'a std_sort \<Rightarrow> ('a \<Rightarrow> real) \<Rightarrow> nat \<Rightarrow> nat \<Rightarrow> nat \<Rightarrow> 'a list \<Rightarrow> 'a list" where
  "introsort_loop heap key lo hi depth_limit xs =
     (if 16 < hi - lo
      then if depth_limit = 0 then sort_range heap key lo hi xs
           else let p = unguarded_partition_pivot key lo hi xs;
                    cut = fst p
                in introsort_loop heap key lo cut (depth_limit - 1)
                     (introsort_loop heap key cut hi (depth_limit - 1) (snd p))
      else xs)"

text \<open>\<open>__unguarded_linear_insert\<close> of the value \<open>val\<close> taken from position \<open>hi\<close>.\<close>

fun unguarded_linear_insert :: "('a \<Rightarrow> real) \<Rightarrow> 'a \<Rightarrow> nat \<Rightarrow> 'a list \<Rightarrow> 'a list" where
  "unguarded_linear_insert key val hi xs =
     (if 0 < hi \<and> key val < key (xs ! (hi - 1))
      then unguarded_linear_insert key val (hi - 1) (xs[hi := xs ! (hi - 1)])
      else xs[hi := val])"

declare introsort_loop.simps [simp del] unguarded_linear_insert.simps [simp del]

text \<open>
  \<open>__insertion_sort\<close>: an element below the first one is moved to the front
  (\<open>move_backward\<close>), any other one is inserted without a bound check.
\<close>

definition insertion_sort :: "('a \<Rightarrow> real) \<Rightarrow> nat \<Rightarrow> nat \<Rightarrow> 'a list \<Rightarrow> 'a list" where
  "insertion_sort key lo hi xs =
     foldl (\<lambda>ys i. if key (ys ! i) < key (ys ! lo)
                    then take lo ys @ [ys ! i] @ take (i - lo) (drop lo ys) @ drop (Suc i) ys
                    else unguarded_linear_insert key (ys ! i) i ys)
       xs [Suc lo..<hi]"

definition unguarded_insertion_sort :: "('a \<Rightarrow> real) \<Rightarrow> nat \<Rightarrow> nat \<Rightarrow> 'a list \<Rightarrow> 'a list" where
  "unguarded_insertion_sort key lo hi xs =
     foldl (\<lambda>ys i. unguarded_linear_insert key (ys ! i) i ys) xs [lo..<hi]"

definition final_insertion_sort :: "('a \<Rightarrow> real) \<Rightarrow> nat \<Rightarrow> nat \<Rightarrow> 'a list \<Rightarrow> 'a list" where
  "final_insertion_sort key lo hi xs =
     (if 16 < hi - lo
      then unguarded_insertion_sort key (lo + 16) hi (insertion_sort key lo (lo + 16) xs)
      else insertion_sort key lo hi xs)"

text \<open>\<open>std::__lg\<close>, the binary logarithm rounded down.\<close>

fun lg :: "nat \<Rightarrow> nat" where
  "lg n = (if n < 2 then 0 else Suc (lg (n div 2)))"

declare lg.simps [simp del]

definition gnu_sort :: "'a std_sort \<Rightarrow> 'a std_sort" where
  "gnu_sort heap key xs =
     (if xs = [] then xs
      else final_insertion_sort key 0 (length xs)
             (introsort_loop heap key 0 (length xs) (lg (length xs) * 2) xs))"

text \<open>
  \<open>QString::toDouble\<close> is a parameter \<open>toDouble\<close> of the model. The examples use its
  values on the labels \<open>10\<close>, \<open>30\<close> and \<open>50\<close>; any other text counts as unparseable.
\<close>

definition sample_toDouble :: "string \<Rightarrow> real" where
  "sample_toDouble s =
     (if s = ''10'' then 10 else if s = ''30'' then 30 else if s = ''50'' then 50 else 0)"

text \<open>\<open>std::numeric_limits<double>::max()\<close>; \<open>lowest()\<close> is its negation.\<close>

definition DBL_MAX :: real where
  "DBL_MAX = (2 - 1 / 2 ^ 52) * 2 ^ 1023"

section \<open>LIVDataProcessor\<close>

type_synonym point = "real \<times> real \<times> real"

text \<open>The loop of \<open>LIVDataProcessor::generateVectorsFromFile\<close> over the lines.\<close>

fun LIV_collect_points :: "row list \<Rightarrow> point list" where
  "LIV_collect_points [] = []"
| "LIV_collect_points (flds # lines) =
     (if length flds \<noteq> 3 then LIV_collect_points lines
      else let xVal = flds ! 0; y1Val = flds ! 1; y2Val = flds ! 2
           in if xVal \<le> 5 / 1000 then LIV_collect_points lines
              else (xVal, y1Val, y2Val) # LIV_collect_points lines)"

text \<open>
  \<open>LIVDataProcessor::generateVectorsFromFile\<close>. The three out-parameters are fresh empty
  vectors at the only call site, so the model returns them.
\<close>

definition LIV_generateVectorsFromFile ::
  "point std_sort \<Rightarrow> file_system \<Rightarrow> string \<Rightarrow> real list \<times> real list \<times> real list" where
  "LIV_generateVectorsFromFile srt fs fileName =
     (case fs fileName of
        None \<Rightarrow> ([], [], [])
      | Some lines \<Rightarrow>
          let points = srt fst (LIV_collect_points lines)
          in (map fst points, map (\<lambda>p. fst (snd p)) points, map (\<lambda>p. snd (snd p)) points))"

text \<open>The local \<open>struct Trace\<close> of \<open>LIVDataProcessor::generateVectors\<close>.\<close>

record LIV_Trace =
  liv_filePath :: string
  liv_valueStr :: string
  liv_x :: "real list"
  liv_y1 :: "real list"
  liv_y2 :: "real list"

text \<open>The data members of \<open>LIVDataProcessor\<close>.\<close>

record LIVDataProcessor =
  liv_xList :: "real list list"
  liv_y1List :: "real list list"
  liv_y2List :: "real list list"
  liv_valueList :: "string list"
  liv_minX :: real
  liv_maxX :: real
  liv_minY1 :: real
  liv_maxY1 :: real
  liv_preNormMaxY2 :: real
  liv_scaleFactor :: real

text \<open>
  \<open>files.toStdMap()\<close> is iterated in the order of its keys; \<open>files\<close> is the list of
  its (path, label) entries in that order. \<open>toDouble\<close> stands for \<open>QString::toDouble\<close>.
\<close>

definition LIV_read_trace :: "point std_sort \<Rightarrow> file_system \<Rightarrow> string \<times> string \<Rightarrow> LIV_Trace" where
  "LIV_read_trace srt fs entry =
     (case LIV_generateVectorsFromFile srt fs (fst entry) of
        (x, y1, y2) \<Rightarrow>
          \<lparr>liv_filePath = fst entry, liv_valueStr = snd entry, liv_x = x, liv_y1 = y1, liv_y2 = y2\<rparr>)"

text \<open>The body of the loop that fills the sorted internal lists.\<close>

definition LIV_append_trace :: "LIVDataProcessor \<Rightarrow> LIV_Trace \<Rightarrow> LIVDataProcessor" where
  "LIV_append_trace st t =
     st\<lparr>liv_xList := liv_xList st @ [liv_x t],
        liv_y1List := liv_y1List st @ [liv_y1 t],
        liv_y2List := liv_y2List st @ [liv_y2 t],
        liv_valueList := liv_valueList st @ [liv_valueStr t],
        liv_minX := (if liv_x t \<noteq> [] then min (liv_minX st) (Min (set (liv_x t))) else liv_minX st),
        liv_maxX := (if liv_x t \<noteq> [] then max (liv_maxX st) (Max (set (liv_x t))) else liv_maxX st),
        liv_minY1 := (if liv_y1 t \<noteq> [] then min (liv_minY1 st) (Min (set (liv_y1 t))) else liv_minY1 st),
        liv_maxY1 := (if liv_y1 t \<noteq> [] then max (liv_maxY1 st) (Max (set (liv_y1 t))) else liv_maxY1 st),
        liv_preNormMaxY2 :=
          (if liv_y2 t \<noteq> [] then max (liv_preNormMaxY2 st) (Max (set (liv_y2 t)))
           else liv_preNormMaxY2 st)\<rparr>"

definition LIV_sorted_traces ::
  "point std_sort \<Rightarrow> LIV_Trace std_sort \<Rightarrow> (string \<Rightarrow> real) \<Rightarrow> file_system \<Rightarrow>
   (string \<times> string) list \<Rightarrow> LIV_Trace list" where
  "LIV_sorted_traces srtP srtT toDouble fs files =
     srtT (\<lambda>t. toDouble (liv_valueStr t)) (map (LIV_read_trace srtP fs) files)"

definition LIV_generateVectors ::
  "point std_sort \<Rightarrow> LIV_Trace std_sort \<Rightarrow> (string \<Rightarrow> real) \<Rightarrow> file_system \<Rightarrow>
   (string \<times> string) list \<Rightarrow> LIVDataProcessor \<Rightarrow> LIVDataProcessor" where
  "LIV_generateVectors srtP srtT toDouble fs files st =
     foldl LIV_append_trace st (LIV_sorted_traces srtP srtT toDouble fs files)"

definition LIV_normalizeData :: "LIVDataProcessor \<Rightarrow> LIVDataProcessor" where
  "LIV_normalizeData st =
     (if liv_y2List st = [] then st
      else let referenceNorm = (if liv_preNormMaxY2 st = 0 then 1 else liv_preNormMaxY2 st)
           in st\<lparr>liv_y2List :=
                   map (map (\<lambda>val. (val / referenceNorm) * liv_scaleFactor st)) (liv_y2List st)\<rparr>)"

text \<open>The member initialisers of the constructor, before its body runs.\<close>

definition LIV_initial :: "real \<Rightarrow> LIVDataProcessor" where
  "LIV_initial scaleFactor =
     \<lparr>liv_xList = [], liv_y1List = [], liv_y2List = [], liv_valueList = [],
      liv_minX = DBL_MAX, liv_maxX = - DBL_MAX, liv_minY1 = DBL_MAX, liv_maxY1 = - DBL_MAX,
      liv_preNormMaxY2 = - DBL_MAX, liv_scaleFactor = scaleFactor\<rparr>"

text \<open>The state when \<open>generateVectors\<close> has returned and \<open>normalizeData\<close> has not run.\<close>

definition LIV_parsed ::
  "point std_sort \<Rightarrow> LIV_Trace std_sort \<Rightarrow> (string \<Rightarrow> real) \<Rightarrow> file_system \<Rightarrow>
   (string \<times> string) list \<Rightarrow> real \<Rightarrow> LIVDataProcessor" where
  "LIV_parsed srtP srtT toDouble fs files scaleFactor =
     LIV_generateVectors srtP srtT toDouble fs files (LIV_initial scaleFactor)"

definition LIVDataProcessor_ctor ::
  "point std_sort \<Rightarrow> LIV_Trace std_sort \<Rightarrow> (string \<Rightarrow> real) \<Rightarrow> file_system \<Rightarrow>
   (string \<times> string) list \<Rightarrow> real \<Rightarrow> LIVDataProcessor" where
  "LIVDataProcessor_ctor srtP srtT toDouble fs files scaleFactor =
     LIV_normalizeData (LIV_parsed srtP srtT toDouble fs files scaleFactor)"

text \<open>The constructor called without its last argument: \<open>double scaleFactor = 100.0\<close>.\<close>

definition LIVDataProcessor_ctor_default ::
  "point std_sort \<Rightarrow> LIV_Trace std_sort \<Rightarrow> (string \<Rightarrow> real) \<Rightarrow> file_system \<Rightarrow>
   (string \<times> string) list \<Rightarrow> LIVDataProcessor" where
  "LIVDataProcessor_ctor_default srtP srtT toDouble fs files =
     LIVDataProcessor_ctor srtP srtT toDouble fs files 100"

section \<open>SpectraDataProcessor\<close>

definition THz_per_wavenumber :: real where
  "THz_per_wavenumber = 299792458 / 10 ^ 10"

text \<open>The loop of \<open>SpectraDataProcessor::generateVectorsFromFile\<close> over the lines.\<close>

fun Spectra_collect_points :: "row list \<Rightarrow> (real \<times> real) list" where
  "Spectra_collect_points [] = []"
| "Spectra_collect_points (flds # lines) =
     (if length flds \<noteq> 2 then Spectra_collect_points lines
      else let xVal = flds ! 0 * THz_per_wavenumber; y1Val = flds ! 1
           in if xVal \<le> 5 / 1000 then Spectra_collect_points lines
              else (xVal, y1Val) # Spectra_collect_points lines)"

text \<open>\<open>SpectraDataProcessor::generateVectorsFromFile\<close>: no sort, rows stay in file order.\<close>

definition Spectra_generateVectorsFromFile ::
  "file_system \<Rightarrow> string \<Rightarrow> real list \<times> real list" where
  "Spectra_generateVectorsFromFile fs fileName =
     (case fs fileName of
        None \<Rightarrow> ([], [])
      | Some lines \<Rightarrow>
          let points = Spectra_collect_points lines
          in (map fst points, map snd points))"

section \<open>IthDataProcessor\<close>

text \<open>
  The data members of \<open>IthDataProcessor\<close>. The constructor does not initialise
  \<open>A_exp\<close>, \<open>B_exp\<close> and \<open>C0_exp\<close>; their first values are whatever the caller's
  state holds.
\<close>

record IthDataProcessor =
  ith_T :: "real list"
  ith_Ith :: "real list"
  ith_DR :: "real list"
  ith_A_exp :: real
  ith_B_exp :: real
  ith_C0_exp :: real
  ith_polynomialCoefficients :: "real list"

text \<open>The first loop over \<open>j\<close>: the first index with \<open>L[j] >= threshold\<close>, if any.\<close>

fun thresholdIndex :: "real list \<Rightarrow> real \<Rightarrow> nat option" where
  "thresholdIndex [] threshold = None"
| "thresholdIndex (l # L) threshold =
     (if l \<ge> threshold then Some 0 else map_option Suc (thresholdIndex L threshold))"

text \<open>The second loop over \<open>j\<close>: the running \<open>(I_min, I_max)\<close>.\<close>

definition dynamic_range_bounds :: "real list \<Rightarrow> real list \<Rightarrow> real \<Rightarrow> real \<times> real" where
  "dynamic_range_bounds I L threshold =
     foldl (\<lambda>(I_min, I_max) j.
              if L ! j \<ge> threshold then (min I_min (I ! j), max I_max (I ! j))
              else (I_min, I_max))
       (DBL_MAX, - DBL_MAX) [0..<length L]"

text \<open>The body of the loop over \<open>idx\<close> in \<open>IthDataProcessor::process\<close>.\<close>

definition process_trace ::
  "(string \<Rightarrow> real) \<Rightarrow> real \<Rightarrow> string \<Rightarrow> real list \<Rightarrow> real list \<Rightarrow>
   IthDataProcessor \<Rightarrow> IthDataProcessor" where
  "process_trace toDouble threshold valueStr I L st =
     (if length I \<noteq> length L then st
      else case thresholdIndex L threshold of
             None \<Rightarrow> st
           | Some k \<Rightarrow>
               let T_val = toDouble valueStr;
                   Jth = I ! k;
                   (I_min, I_max) = dynamic_range_bounds I L threshold;
                   DR_val = I_max - I_min
               in st\<lparr>ith_T := ith_T st @ [T_val],
                     ith_Ith := ith_Ith st @ [Jth],
                     ith_DR := ith_DR st @ [DR_val * 1000]\<rparr>)"

fun process_from ::
  "(string \<Rightarrow> real) \<Rightarrow> LIVDataProcessor \<Rightarrow> real \<Rightarrow> nat list \<Rightarrow> IthDataProcessor \<Rightarrow>
   error + IthDataProcessor" where
  "process_from toDouble data threshold [] st = Inr st"
| "process_from toDouble data threshold (idx # idxs) st =
     (if idx \<ge> length (liv_xList data) \<or> idx \<ge> length (liv_y2List data) then Inl OutOfBounds
      else process_from toDouble data threshold idxs
             (process_trace toDouble threshold (liv_valueList data ! idx)
                (liv_xList data ! idx) (liv_y2List data ! idx) st))"

definition process ::
  "(string \<Rightarrow> real) \<Rightarrow> LIVDataProcessor \<Rightarrow> real \<Rightarrow> IthDataProcessor \<Rightarrow>
   error + IthDataProcessor" where
  "process toDouble data threshold st =
     process_from toDouble data threshold [0..<length (liv_valueList data)] st"

text \<open>
  The constructor: the three vectors and the coefficient vector start empty, the three
  exponential parameters keep the indeterminate values of \<open>uninit\<close>.
\<close>

definition IthDataProcessor_ctor ::
  "(string \<Rightarrow> real) \<Rightarrow> LIVDataProcessor \<Rightarrow> real \<Rightarrow> IthDataProcessor \<Rightarrow>
   error + IthDataProcessor" where
  "IthDataProcessor_ctor toDouble data threshold uninit =
     process toDouble data threshold
       (uninit\<lparr>ith_T := [], ith_Ith := [], ith_DR := [], ith_polynomialCoefficients := []\<rparr>)"

subsection \<open>Exponential fit\<close>

text \<open>
  \<open>IthDataProcessor::exponentialFit\<close>. The reference parameters \<open>A\<close>, \<open>B\<close>, \<open>C0\<close> are
  passed in and returned with the flag and the new state. \<open>y\<close> is read at every index
  below \<open>n = x.size()\<close>.
\<close>

definition exponentialFit ::
  "IthDataProcessor \<Rightarrow> real list \<Rightarrow> real list \<Rightarrow> real \<times> real \<times> real \<Rightarrow>
   error + (bool \<times> (real \<times> real \<times> real) \<times> IthDataProcessor)" where
  "exponentialFit st x y ABC0 =
     (case ABC0 of (A, B, C0) \<Rightarrow>
      let n = length x in
      if n < 2 then Inr (False, (A, B, C0), st)
      else if length y < n then Inl OutOfBounds
      else
        let y_min = Min (set y);
            C0 = y_min;
            y_adj = map (\<lambda>i. y ! i - (99 / 100) * y_min) [0..<n]
        in if list_ex (\<lambda>v. v \<le> 0) y_adj then Inr (False, (A, B, C0), st)
           else
             let log_y_adj = map ln y_adj;
                 sumX = sum_list (map (\<lambda>i. x ! i) [0..<n]);
                 sumY = sum_list (map (\<lambda>i. log_y_adj ! i) [0..<n]);
                 sumXX = sum_list (map (\<lambda>i. x ! i * x ! i) [0..<n]);
                 sumXY = sum_list (map (\<lambda>i. x ! i * log_y_adj ! i) [0..<n]);
                 denominator = real n * sumXX - sumX * sumX
             in if denominator = 0 then Inr (False, (A, B, C0), st)
                else
                  let B = (real n * sumXY - sumX * sumY) / denominator;
                      lnA = (sumY - B * sumX) / real n;
                      A = exp lnA
                  in Inr (True, (A, B, C0),
                          st\<lparr>ith_A_exp := A, ith_B_exp := B, ith_C0_exp := C0\<rparr>))"

subsection \<open>Exponential fit in double arithmetic\<close>

text \<open>
  The code computes in IEEE 754 binary64 with the default rounding: an addition,
  subtraction, multiplication or division returns the double nearest to the exact
  result, a tie going to the even significand, and every operation is rounded on its own
  (no fused multiply-add). The literal \<open>0.99\<close> is the double nearest to 99/100, and the
  \<open>int\<close> \<open>n\<close> converts exactly. \<open>std::log\<close> and \<open>std::exp\<close> are functions of the C
  library, parameters \<open>dlog\<close> and \<open>dexp\<close> of the model.

  A result beyond the largest double is an infinity in the code. The model has no
  infinities: it follows the code as long as every result stays in the finite range.
\<close>

text \<open>The nearest integer, a tie going to the even one.\<close>

definition round_half_even :: "real \<Rightarrow> int" where
  "round_half_even r =
     (let f = \<lfloor>r\<rfloor>
      in if r - real_of_int f < 1 / 2 then f
         else if 1 / 2 < r - real_of_int f then f + 1
         else if even f then f else f + 1)"

text \<open>
  The double nearest to the real \<open>v\<close>: 53 significant bits, the exponent at least -1022
  (the subnormal numbers keep the spacing \<open>2 ^ -1074\<close>).
\<close>

definition round_to_double :: "real \<Rightarrow> real" where
  "round_to_double v =
     (if v = 0 then 0
      else let e = max \<lfloor>log 2 \<bar>v\<bar>\<rfloor> (- 1022);
               ulp = 2 powr real_of_int (e - 52)
           in real_of_int (round_half_even (v / ulp)) * ulp)"

text \<open>
  \<open>IthDataProcessor::exponentialFit\<close> with the rounding of every operation written out.
  \<open>x\<close> and \<open>y\<close> hold doubles.
\<close>

definition exponentialFit_double ::
  "(real \<Rightarrow> real) \<Rightarrow> (real \<Rightarrow> real) \<Rightarrow> IthDataProcessor \<Rightarrow> real list \<Rightarrow> real list \<Rightarrow>
   real \<times> real \<times> real \<Rightarrow> error + (bool \<times> (real \<times> real \<times> real) \<times> IthDataProcessor)" where
  "exponentialFit_double dlog dexp st x y ABC0 =
     (case ABC0 of (A, B, C0) \<Rightarrow>
      let n = length x in
      if n < 2 then Inr (False, (A, B, C0), st)
      else if length y < n then Inl OutOfBounds
      else
        let y_min = Min (set y);
            C0 = y_min;
            y_adj = map (\<lambda>i. round_to_double
                                (y ! i - round_to_double (round_to_double (99 / 100) * y_min)))
                      [0..<n]
        in if list_ex (\<lambda>v. v \<le> 0) y_adj then Inr (False, (A, B, C0), st)
           else
             let log_y_adj = map dlog y_adj;
                 sumX = foldl (\<lambda>s i. round_to_double (s + x ! i)) 0 [0..<n];
                 sumY = foldl (\<lambda>s i. round_to_double (s + log_y_adj ! i)) 0 [0..<n];
                 sumXX = foldl (\<lambda>s i. round_to_double (s + round_to_double (x ! i * x ! i))) 0 [0..<n];
                 sumXY = foldl (\<lambda>s i. round_to_double (s + round_to_double (x ! i * log_y_adj ! i)))
                           0 [0..<n];
                 denominator = round_to_double
                                 (round_to_double (real n * sumXX) - round_to_double (sumX * sumX))
             in if denominator = 0 then Inr (False, (A, B, C0), st)
                else
                  let B = round_to_double
                            (round_to_double
                               (round_to_double (real n * sumXY) - round_to_double (sumX * sumY)) /
                             denominator);
                      lnA = round_to_double (round_to_double (sumY - round_to_double (B * sumX)) / real n);
                      A = dexp lnA
                  in Inr (True, (A, B, C0),
                          st\<lparr>ith_A_exp := A, ith_B_exp := B, ith_C0_exp := C0\<rparr>))"

subsection \<open>Linearly spaced points\<close>

text \<open>
  \<open>IthDataProcessor::linspace\<close>. \<open>numPoints\<close> is an \<open>int\<close>; the model covers the values
  for which \<open>numPoints - 1\<close> does not overflow. The division is by zero when
  \<open>numPoints = 1\<close>. For \<open>numPoints \<le> 0\<close> the loop does not run.
\<close>

definition linspace :: "real \<Rightarrow> real \<Rightarrow> int \<Rightarrow> error + real list" where
  "linspace start end numPoints =
     (if numPoints - 1 = 0 then Inl DivisionByZero
      else let step = (end - start) / real_of_int (numPoints - 1)
           in Inr (map (\<lambda>i. start + real i * step) [0..<nat numPoints]))"

text \<open>\<open>QVector::first()\<close> and \<open>QVector::last()\<close>: undefined on an empty vector.\<close>

definition first :: "'a list \<Rightarrow> error + 'a" where
  "first xs = (if xs = [] then Inl OutOfBounds else Inr (hd xs))"

definition last_elem :: "'a list \<Rightarrow> error + 'a" where
  "last_elem xs = (if xs = [] then Inl OutOfBounds else Inr (last xs))"

text \<open>
  \<open>IthDataProcessor::applyExponentialFit\<close>. The locals \<open>A\<close>, \<open>B\<close>, \<open>C0\<close> are not
  initialised; \<open>locals\<close> holds their indeterminate first values.
\<close>

definition applyExponentialFit ::
  "IthDataProcessor \<Rightarrow> real \<times> real \<times> real \<Rightarrow> int \<Rightarrow>
   error + ((real list \<times> real list) \<times> IthDataProcessor)" where
  "applyExponentialFit st locals numPoints =
     (case first (ith_T st) of Inl e \<Rightarrow> Inl e | Inr T_first \<Rightarrow>
       (case last_elem (ith_T st) of Inl e \<Rightarrow> Inl e | Inr T_last \<Rightarrow>
         (case linspace T_first T_last numPoints of Inl e \<Rightarrow> Inl e | Inr T_fit \<Rightarrow>
           (case exponentialFit st (ith_T st) (ith_Ith st) locals of
              Inl e \<Rightarrow> Inl e
            | Inr (ok, (A, B, C0), st') \<Rightarrow>
                if \<not> ok then Inr ((T_fit, []), st')
                else Inr ((T_fit, map (\<lambda>t. A * exp (B * t) + C0) T_fit), st')))))"

subsection \<open>Polynomial fit\<close>

text \<open>A loop whose body can fail: the first error ends it.\<close>

fun for_each :: "('i \<Rightarrow> 's \<Rightarrow> error + 's) \<Rightarrow> 'i list \<Rightarrow> 's \<Rightarrow> error + 's" where
  "for_each body [] s = Inr s"
| "for_each body (i # is) s =
     (case body i s of Inl e \<Rightarrow> Inl e | Inr s' \<Rightarrow> for_each body is s')"

text \<open>The pivot search: the row at or below \<open>i\<close> with the largest magnitude in column \<open>i\<close>.\<close>

definition find_maxRow :: "real list list \<Rightarrow> nat \<Rightarrow> nat \<Rightarrow> nat" where
  "find_maxRow augmentedMatrix m i =
     foldl (\<lambda>maxRow j.
              if \<bar>augmentedMatrix ! j ! i\<bar> > \<bar>augmentedMatrix ! maxRow ! i\<bar> then j else maxRow)
       i [i + 1..<m]"

text \<open>
  One row of the elimination below the pivot. \<open>factor\<close> divides by the pivot; a pivot
  that is zero is the error \<open>DivisionByZero\<close>. Columns \<open>i .. order + 1\<close> are updated.
\<close>

definition eliminate_row :: "nat \<Rightarrow> nat \<Rightarrow> real list list \<Rightarrow> error + real list list" where
  "eliminate_row i j augmentedMatrix =
     (if augmentedMatrix ! i ! i = 0 then Inl DivisionByZero
      else let factor = augmentedMatrix ! j ! i / augmentedMatrix ! i ! i
           in Inr (augmentedMatrix[j :=
                     map (\<lambda>k. if k < i then augmentedMatrix ! j ! k
                               else augmentedMatrix ! j ! k - augmentedMatrix ! i ! k * factor)
                       [0..<length (augmentedMatrix ! j)]]))"

text \<open>One pass of the outer loop of the elimination, for column \<open>i\<close> of \<open>m = order + 1\<close>.\<close>

definition eliminate_column :: "nat \<Rightarrow> nat \<Rightarrow> real list list \<Rightarrow> error + real list list" where
  "eliminate_column m i augmentedMatrix =
     (let maxRow = find_maxRow augmentedMatrix m i;
          swapped = (if i \<noteq> maxRow
                     then augmentedMatrix[i := augmentedMatrix ! maxRow, maxRow := augmentedMatrix ! i]
                     else augmentedMatrix)
      in for_each (eliminate_row i) [i + 1..<m] swapped)"

text \<open>
  One pass of the back substitution, for row \<open>i\<close>: the state is the matrix and the
  coefficient vector.
\<close>

definition back_substitute ::
  "nat \<Rightarrow> nat \<Rightarrow> real list list \<times> real list \<Rightarrow> error + (real list list \<times> real list)" where
  "back_substitute m i s =
     (case s of (augmentedMatrix, coefficients) \<Rightarrow>
      if augmentedMatrix ! i ! i = 0 then Inl DivisionByZero
      else let c = augmentedMatrix ! i ! m / augmentedMatrix ! i ! i
           in Inr (map (\<lambda>j. if j < i
                              then (augmentedMatrix ! j)[m := augmentedMatrix ! j ! m - augmentedMatrix ! j ! i * c]
                              else augmentedMatrix ! j)
                     [0..<length augmentedMatrix],
                   coefficients[i := c]))"

text \<open>
  \<open>IthDataProcessor::polynomialFit\<close>. \<open>order\<close> is an \<open>int\<close>. A vector cannot be
  built with the negative size \<open>order + 1\<close>; \<open>y\<close> is read at every index below \<open>n\<close>.
  \<open>coefficients.resize(order + 1)\<close> keeps the entries the caller's vector has and fills
  with zero.
\<close>

definition polynomialFit ::
  "IthDataProcessor \<Rightarrow> real list \<Rightarrow> real list \<Rightarrow> int \<Rightarrow> real list \<Rightarrow>
   error + (bool \<times> real list \<times> IthDataProcessor)" where
  "polynomialFit st x y order coefficients =
     (let n = length x in
      if int n \<le> order then Inr (False, coefficients, st)
      else if order + 1 < 0 then Inl NegativeSize
      else if length y < n then Inl OutOfBounds
      else
        let m = nat (order + 1);
            X = map (\<lambda>i. map (\<lambda>j. x ! i ^ j) [0..<m]) [0..<n];
            XtX = map (\<lambda>i. map (\<lambda>j. sum_list (map (\<lambda>k. X ! k ! i * X ! k ! j) [0..<n])) [0..<m])
                    [0..<m];
            XtY = map (\<lambda>i. sum_list (map (\<lambda>k. X ! k ! i * y ! k) [0..<n])) [0..<m];
            augmentedMatrix = map (\<lambda>i. XtX ! i @ [XtY ! i]) [0..<m]
        in case for_each (eliminate_column m) [0..<m] augmentedMatrix of
             Inl e \<Rightarrow> Inl e
           | Inr reduced \<Rightarrow>
               (case for_each (back_substitute m) (rev [0..<m])
                       (reduced, take m coefficients @ replicate (m - length coefficients) 0) of
                  Inl e \<Rightarrow> Inl e
                | Inr (final, coefficients') \<Rightarrow>
                    Inr (True, coefficients',
                         st\<lparr>ith_polynomialCoefficients := coefficients'\<rparr>)))"

text \<open>\<open>IthDataProcessor::applyPolynomialFit\<close>.\<close>

definition applyPolynomialFit ::
  "IthDataProcessor \<Rightarrow> int \<Rightarrow> int \<Rightarrow>
   error + ((real list \<times> real list) \<times> IthDataProcessor)" where
  "applyPolynomialFit st numPoints order =
     (case first (ith_T st) of Inl e \<Rightarrow> Inl e | Inr T_first \<Rightarrow>
       (case last_elem (ith_T st) of Inl e \<Rightarrow> Inl e | Inr T_last \<Rightarrow>
         (case linspace T_first T_last numPoints of Inl e \<Rightarrow> Inl e | Inr T_fit \<Rightarrow>
           (case polynomialFit st (ith_T st) (ith_Ith st) order [] of
              Inl e \<Rightarrow> Inl e
            | Inr (ok, coefficients, st') \<Rightarrow>
                if \<not> ok then Inr ((T_fit, []), st')
                else Inr ((T_fit,
                           map (\<lambda>t. sum_list (map (\<lambda>j. coefficients ! j * t ^ j)
                                                [0..<length coefficients]))
                             T_fit),
                          st')))))"

section \<open>SpectraDataProcessor: peaks, construction and axis range\<close>

text \<open>The local \<open>struct Trace\<close> of \<open>SpectraDataProcessor::generateVectors\<close>.\<close>

record Spectra_Trace =
  sp_valueStr :: string
  sp_x :: "real list"
  sp_y1 :: "real list"

text \<open>\<open>struct Peak\<close>.\<close>

record Peak =
  frequency :: real
  amplitude :: real
  fwhm :: real
  qFactor :: real

text \<open>The data members of \<open>SpectraDataProcessor\<close>.\<close>

record SpectraDataProcessor =
  sp_fmin :: real
  sp_fmax :: real
  sp_xList :: "real list list"
  sp_y1List :: "real list list"
  sp_valueList :: "string list"
  sp_centerModeData :: "Peak list"
  sp_sideModeData :: "Peak list list"

subsection \<open>Peak detection\<close>

text \<open>
  The peak functions index \<open>x\<close> and the amplitudes with the same indices. At every call
  the two vectors have the same length: they are the two columns of one parsed file, or
  \<open>x\<close> and the smoothed amplitudes.
\<close>

text \<open>\<open>findClosestIndex\<close>; the source's \<open>-1\<close> is \<open>None\<close>.\<close>

definition findClosestIndex :: "real list \<Rightarrow> real \<Rightarrow> nat option" where
  "findClosestIndex vec target =
     (if vec = [] then None
      else Some (fst (foldl (\<lambda>(closestIndex, minDiff) i.
                               let diff = \<bar>vec ! i - target\<bar>
                               in if diff < minDiff then (i, diff) else (closestIndex, minDiff))
                        (0, \<bar>vec ! 0 - target\<bar>) [1..<length vec])))"

text \<open>
  The index \<open>std::max_element\<close> points at: the first largest element; for an empty
  vector the end iterator, at distance 0 from the beginning.
\<close>

definition max_element_index :: "real list \<Rightarrow> nat" where
  "max_element_index ys = foldl (\<lambda>largest i. if ys ! largest < ys ! i then i else largest) 0 [1..<length ys]"

definition findCenterMode :: "real list \<Rightarrow> real list \<Rightarrow> error + real" where
  "findCenterMode x y1 =
     (let maxIndex = max_element_index y1
      in if maxIndex \<ge> length x then Inl OutOfBounds else Inr (x ! maxIndex))"

definition interpolateHalfMaxCrossing :: "real \<Rightarrow> real \<Rightarrow> real \<Rightarrow> real \<Rightarrow> real \<Rightarrow> real" where
  "interpolateHalfMaxCrossing x1 y1 x2 y2 halfMax =
     (if x1 = x2 \<or> y1 = y2 then x1
      else let slope = (y2 - y1) / (x2 - x1) in x1 + (halfMax - y1) / slope)"

text \<open>The two crossing searches; the source's NaN for "not found" is \<open>None\<close>.\<close>

fun findLeftHalfMaxCrossing :: "real list \<Rightarrow> real list \<Rightarrow> nat \<Rightarrow> real \<Rightarrow> real option" where
  "findLeftHalfMaxCrossing x y1 0 halfMax = None"
| "findLeftHalfMaxCrossing x y1 (Suc k) halfMax =
     (let i = Suc k
      in if (y1 ! i \<ge> halfMax \<and> y1 ! (i - 1) < halfMax) \<or>
            (y1 ! i \<le> halfMax \<and> y1 ! (i - 1) > halfMax)
         then Some (interpolateHalfMaxCrossing (x ! i) (y1 ! i) (x ! (i - 1)) (y1 ! (i - 1)) halfMax)
         else findLeftHalfMaxCrossing x y1 k halfMax)"

definition findRightHalfMaxCrossing :: "real list \<Rightarrow> real list \<Rightarrow> nat \<Rightarrow> real \<Rightarrow> real option" where
  "findRightHalfMaxCrossing x y1 peakIndex halfMax =
     (case find (\<lambda>i. (y1 ! i \<ge> halfMax \<and> y1 ! (i + 1) < halfMax) \<or>
                      (y1 ! i \<le> halfMax \<and> y1 ! (i + 1) > halfMax))
             [peakIndex..<length x - 1] of
        None \<Rightarrow> None
      | Some i \<Rightarrow>
          Some (interpolateHalfMaxCrossing (x ! i) (y1 ! i) (x ! (i + 1)) (y1 ! (i + 1)) halfMax))"

definition calculateFWHM :: "real list \<Rightarrow> real list \<Rightarrow> real \<Rightarrow> real" where
  "calculateFWHM x y1 peakFreq =
     (case findClosestIndex x peakFreq of
        None \<Rightarrow> 0
      | Some peakIndex \<Rightarrow>
          let peakAmplitude = y1 ! peakIndex;
              halfMax = peakAmplitude / 2
          in (case (findLeftHalfMaxCrossing x y1 peakIndex halfMax,
                    findRightHalfMaxCrossing x y1 peakIndex halfMax) of
                (Some leftFreq, Some rightFreq) \<Rightarrow>
                  if leftFreq = rightFreq then 0 else \<bar>rightFreq - leftFreq\<bar>
              | _ \<Rightarrow> 0))"

definition calculateQFactor :: "real \<Rightarrow> real \<Rightarrow> real" where
  "calculateQFactor f0 width = (if width \<le> 0 then 0 else f0 / width)"

definition smooth :: "real list \<Rightarrow> nat \<Rightarrow> real list" where
  "smooth y windowSize =
     (let halfWindow = windowSize div 2
      in map (\<lambda>i. let start = i - halfWindow;
                       end = min (length y - 1) (i + halfWindow)
                   in sum_list (map (\<lambda>j. y ! j) [start..<end + 1]) / real (end + 1 - start))
           [0..<length y])"

definition isProminentPeak :: "real list \<Rightarrow> nat \<Rightarrow> real \<Rightarrow> bool" where
  "isProminentPeak y index minProminence =
     (if index \<ge> length y then False
      else let range = 10;
               start = index - range;
               end = min (length y - 1) (index + range);
               leftMin = foldl (\<lambda>m i. min m (y ! i)) (y ! index) [start..<index];
               rightMin = foldl (\<lambda>m i. min m (y ! i)) (y ! index) [index + 1..<end + 1];
               base = max leftMin rightMin
           in (y ! index - base) \<ge> minProminence)"

definition findSideModes :: "real list \<Rightarrow> real list \<Rightarrow> real \<Rightarrow> Peak list" where
  "findSideModes x y1 threshold =
     (if y1 = [] then []
      else let ySmooth = smooth y1 5;
               maxAmp = Max (set ySmooth)
           in if maxAmp = 0 then []
              else let minPeakHeight = threshold * maxAmp;
                       minProminence = (5 / 100) * maxAmp
                   in concat (map (\<lambda>i.
                        if ySmooth ! i > minPeakHeight \<and> ySmooth ! i > ySmooth ! (i - 1) \<and>
                           ySmooth ! i > ySmooth ! (i + 1) \<and> isProminentPeak ySmooth i minProminence
                        then let f0 = x ! i;
                                 amp = ySmooth ! i;
                                 width = calculateFWHM x ySmooth f0
                             in if width > 0
                                then [\<lparr>frequency = f0, amplitude = amp, fwhm = width,
                                       qFactor = calculateQFactor f0 width\<rparr>]
                                else []
                        else [])
                      [1..<length ySmooth - 1]))"

subsection \<open>Construction\<close>

definition Spectra_read_trace :: "file_system \<Rightarrow> string \<times> string \<Rightarrow> Spectra_Trace" where
  "Spectra_read_trace fs entry =
     (case Spectra_generateVectorsFromFile fs (fst entry) of
        (x, y1) \<Rightarrow> \<lparr>sp_valueStr = snd entry, sp_x = x, sp_y1 = y1\<rparr>)"

text \<open>Steps 1 and 2 of \<open>SpectraDataProcessor::generateVectors\<close>: read, then sort.\<close>

definition Spectra_sorted_traces ::
  "Spectra_Trace std_sort \<Rightarrow> (string \<Rightarrow> real) \<Rightarrow> file_system \<Rightarrow> (string \<times> string) list \<Rightarrow>
   Spectra_Trace list" where
  "Spectra_sorted_traces srtT toDouble fs files =
     srtT (\<lambda>t. toDouble (sp_valueStr t)) (map (Spectra_read_trace fs) files)"

text \<open>Step 3: populate the main data structures.\<close>

definition Spectra_append_trace :: "SpectraDataProcessor \<Rightarrow> Spectra_Trace \<Rightarrow> SpectraDataProcessor" where
  "Spectra_append_trace st t =
     st\<lparr>sp_valueList := sp_valueList st @ [sp_valueStr t],
        sp_xList := sp_xList st @ [sp_x t],
        sp_y1List := sp_y1List st @ [sp_y1 t]\<rparr>"

text \<open>
  Step 4, for one trace with columns \<open>x\<close> and \<open>y\<close>. The center peak: reading the
  center frequency or the largest amplitude of a trace without points is out of bounds.
\<close>

definition center_peak :: "real list \<Rightarrow> real list \<Rightarrow> error + Peak" where
  "center_peak x y =
     (case findCenterMode x y of
        Inl e \<Rightarrow> Inl e
      | Inr centerFreq \<Rightarrow>
          let width = calculateFWHM x y centerFreq;
              q = calculateQFactor centerFreq width
          in if y = [] then Inl OutOfBounds
             else let amp = Max (set y)
                  in Inr \<lparr>frequency = centerFreq, amplitude = amp, fwhm = width, qFactor = q\<rparr>)"

text \<open>The side peaks, without those within \<open>1e-6\<close> of the center frequency.\<close>

definition side_peaks :: "real list \<Rightarrow> real list \<Rightarrow> real \<Rightarrow> Peak list" where
  "side_peaks x y centerFreq =
     filter (\<lambda>p. \<not> \<bar>frequency p - centerFreq\<bar> < 1 / 10 ^ 6) (findSideModes x y (15 / 100))"

text \<open>The body of the loop of Step 4 for trace \<open>i\<close>.\<close>

definition calculate_peaks :: "nat \<Rightarrow> SpectraDataProcessor \<Rightarrow> error + SpectraDataProcessor" where
  "calculate_peaks i st =
     (if i \<ge> length (sp_y1List st) then Inl OutOfBounds
      else let x = sp_xList st ! i;
               y = sp_y1List st ! i
           in case center_peak x y of
                Inl e \<Rightarrow> Inl e
              | Inr center \<Rightarrow>
                  Inr (st\<lparr>sp_centerModeData := sp_centerModeData st @ [center],
                          sp_sideModeData := sp_sideModeData st @ [side_peaks x y (frequency center)]\<rparr>))"

definition Spectra_generateVectors ::
  "Spectra_Trace std_sort \<Rightarrow> (string \<Rightarrow> real) \<Rightarrow> file_system \<Rightarrow> (string \<times> string) list \<Rightarrow>
   SpectraDataProcessor \<Rightarrow> error + SpectraDataProcessor" where
  "Spectra_generateVectors srtT toDouble fs files st =
     (let populated = foldl Spectra_append_trace st (Spectra_sorted_traces srtT toDouble fs files)
      in for_each calculate_peaks [0..<length (sp_xList populated)] populated)"

text \<open>\<open>SpectraDataProcessor::ensureAscendingX\<close>, the body of its loop and the loop.\<close>

definition ensureAscendingX_trace :: "nat \<Rightarrow> SpectraDataProcessor \<Rightarrow> SpectraDataProcessor" where
  "ensureAscendingX_trace traceIdx st =
     (let x = sp_xList st ! traceIdx;
          y = sp_y1List st ! traceIdx
      in if length x < 2 then st
         else if hd x > last x
              then st\<lparr>sp_xList := (sp_xList st)[traceIdx := rev x],
                      sp_y1List := (sp_y1List st)[traceIdx := rev y]\<rparr>
              else st)"

definition ensureAscendingX :: "SpectraDataProcessor \<Rightarrow> SpectraDataProcessor" where
  "ensureAscendingX st = foldl (\<lambda>s traceIdx. ensureAscendingX_trace traceIdx s) st [0..<length (sp_xList st)]"

text \<open>\<open>SpectraDataProcessor::normalizeData\<close>: each trace by its own maximum.\<close>

definition Spectra_normalize_trace :: "real list \<Rightarrow> real list" where
  "Spectra_normalize_trace y1 =
     (if y1 \<noteq> [] then
        let maxVal = Max (set y1)
        in if maxVal \<noteq> 0 then map (\<lambda>val. val / maxVal) y1 else y1
      else y1)"

definition Spectra_normalizeData :: "SpectraDataProcessor \<Rightarrow> SpectraDataProcessor" where
  "Spectra_normalizeData st = st\<lparr>sp_y1List := map Spectra_normalize_trace (sp_y1List st)\<rparr>"

definition Spectra_initial :: "real \<Rightarrow> real \<Rightarrow> SpectraDataProcessor" where
  "Spectra_initial fmin fmax =
     \<lparr>sp_fmin = fmin, sp_fmax = fmax, sp_xList = [], sp_y1List = [], sp_valueList = [],
      sp_centerModeData = [], sp_sideModeData = []\<rparr>"

text \<open>The constructor: \<open>generateVectors\<close>, \<open>ensureAscendingX\<close>, \<open>normalizeData\<close>.\<close>

definition SpectraDataProcessor_ctor ::
  "Spectra_Trace std_sort \<Rightarrow> (string \<Rightarrow> real) \<Rightarrow> file_system \<Rightarrow> (string \<times> string) list \<Rightarrow>
   real \<Rightarrow> real \<Rightarrow> error + SpectraDataProcessor" where
  "SpectraDataProcessor_ctor srtT toDouble fs files fmin fmax =
     (case Spectra_generateVectors srtT toDouble fs files (Spectra_initial fmin fmax) of
        Inl e \<Rightarrow> Inl e
      | Inr st \<Rightarrow> Inr (Spectra_normalizeData (ensureAscendingX st)))"

subsection \<open>Axis range\<close>

text \<open>\<open>std::round\<close>: to the nearest integer, halfway cases away from zero.\<close>

definition std_round :: "real \<Rightarrow> int" where
  "std_round v = (if v \<ge> 0 then \<lfloor>v + 1 / 2\<rfloor> else - \<lfloor>- v + 1 / 2\<rfloor>)"

text \<open>
  \<open>SpectraDataProcessor::adjustRange\<close>; the result is
  \<open>(adjustedXmin, adjustedXmax, step)\<close>. Both divisions can be by zero.
\<close>

definition adjustRange :: "real \<Rightarrow> real \<Rightarrow> real \<Rightarrow> int \<Rightarrow> error + (real \<times> real \<times> real)" where
  "adjustRange xmin xmax targetFreq numTicks =
     (if numTicks = 0 then Inl DivisionByZero
      else let step = (xmax - xmin) / real_of_int numTicks
           in if step = 0 then Inl DivisionByZero
              else let offsetTicks = real_of_int (std_round ((targetFreq - xmin) / step));
                       adjustedXmin = targetFreq - offsetTicks * step;
                       adjustedXmax = adjustedXmin + real_of_int numTicks * step
                   in Inr (adjustedXmin, adjustedXmax, step))"

text \<open>
  The part \<open>getXmin\<close> and \<open>getXmax\<close> share, word for word: the window before the snap,
  with its margin, and the lowest center frequency.
\<close>

definition peak_window :: "SpectraDataProcessor \<Rightarrow> real \<times> real" where
  "peak_window st =
     (let xmin0 = frequency (sp_centerModeData st ! 0) - fwhm (sp_centerModeData st ! 0);
          xmax0 = frequency (sp_centerModeData st ! 0) + fwhm (sp_centerModeData st ! 0);
          (xmin, xmax) =
            foldl (\<lambda>(xmin, xmax) p.
                     if amplitude p > 15 / 100
                     then (min xmin (frequency p - fwhm p), max xmax (frequency p + fwhm p))
                     else (xmin, xmax))
              (xmin0, xmax0) (concat (sp_sideModeData st))
      in (xmin - 20 / 1000, xmax + 20 / 1000))"

definition lowestF0 :: "SpectraDataProcessor \<Rightarrow> real" where
  "lowestF0 st =
     foldl (\<lambda>lowest c. if frequency c < lowest then frequency c else lowest)
       (frequency (sp_centerModeData st ! 0)) (sp_centerModeData st)"

definition getXmin :: "SpectraDataProcessor \<Rightarrow> error + real" where
  "getXmin st =
     (if sp_fmin st \<noteq> 0 then Inr (sp_fmin st)
      else if sp_centerModeData st = [] \<or> sp_xList st = [] \<or> sp_y1List st = [] then Inr 0
      else case peak_window st of (xmin, xmax) \<Rightarrow>
             (case adjustRange xmin xmax (lowestF0 st) 6 of
                Inl e \<Rightarrow> Inl e
              | Inr (adjustedXmin, adjustedXmax, step) \<Rightarrow> Inr adjustedXmin))"

definition getXmax :: "SpectraDataProcessor \<Rightarrow> error + real" where
  "getXmax st =
     (if sp_fmax st \<noteq> 0 then Inr (sp_fmax st)
      else if sp_centerModeData st = [] \<or> sp_xList st = [] \<or> sp_y1List st = [] then Inr 0
      else case peak_window st of (xmin, xmax) \<Rightarrow>
             (case adjustRange xmin xmax (lowestF0 st) 6 of
                Inl e \<Rightarrow> Inl e
              | Inr (adjustedXmin, adjustedXmax, step) \<Rightarrow> Inr adjustedXmax))"

section \<open>Facts about the sorting contract\<close>

lemma std_sort_contract_sort_key: "std_sort_contract sort_key"
  by (simp add: std_sort_contract_def)

lemma std_sort_set: "std_sort_contract srt \<Longrightarrow> set (srt key xs) = set xs"
  by (metis std_sort_contract_def set_mset_mset)

lemma std_sort_sorted: "std_sort_contract srt \<Longrightarrow> sorted (map key (srt key xs))"
  by (simp add: std_sort_contract_def)


section \<open>Parsing one file\<close>

lemma LIV_collect_points_filter:
  "LIV_collect_points lines =
     map (\<lambda>flds. (flds ! 0, flds ! 1, flds ! 2))
       (filter (\<lambda>flds. length flds = 3 \<and> 5 / 1000 < flds ! 0) lines)"
  by (induction lines) (auto simp: Let_def)

lemma Spectra_collect_points_filter:
  "Spectra_collect_points lines =
     map (\<lambda>flds. (flds ! 0 * THz_per_wavenumber, flds ! 1))
       (filter (\<lambda>flds. length flds = 2 \<and> 5 / 1000 < flds ! 0 * THz_per_wavenumber) lines)"
  by (induction lines) (auto simp: Let_def)

lemma THz_conversion_above_floor:
  "5 / 1000 < v * THz_per_wavenumber \<Longrightarrow> 5 / 1000 < v"
proof -
  assume a: "5 / 1000 < v * THz_per_wavenumber"
  have c: "0 < THz_per_wavenumber" "THz_per_wavenumber < 1"
    by (simp_all add: THz_per_wavenumber_def)
  from a c have "0 < v"
    by (smt (verit) mult_nonpos_nonneg divide_pos_pos)
  then have "v * THz_per_wavenumber \<le> v"
    using c by (simp add: mult_left_le)
  with a show ?thesis by linarith
qed

lemma LIV_generateVectorsFromFile_points:
  assumes "fs path = Some lines"
    and "LIV_generateVectorsFromFile srt fs path = (xs, y1s, y2s)"
  shows "xs = map fst (srt fst (LIV_collect_points lines))"
    and "y1s = map (\<lambda>p. fst (snd p)) (srt fst (LIV_collect_points lines))"
    and "y2s = map (\<lambda>p. snd (snd p)) (srt fst (LIV_collect_points lines))"
  using assms by (simp_all add: LIV_generateVectorsFromFile_def Let_def)

text \<open>
  Claim C1, as the code has it. The three-column parser of \<open>LIVDataProcessor\<close> returns
  its x column in ascending order, for every file (an unreadable file gives empty
  columns). The two-column parser of \<open>SpectraDataProcessor\<close> does not sort: it returns
  the rows that pass the column count and the noise floor in the order of the file.
\<close>

theorem LIV_parse_sorted_Spectra_parse_in_file_order:
  assumes "std_sort_contract srt"
  shows "sorted (fst (LIV_generateVectorsFromFile srt fs path)) \<and>
         Spectra_generateVectorsFromFile fs path =
           (case fs path of
              None \<Rightarrow> ([], [])
            | Some lines \<Rightarrow>
                (map (\<lambda>flds. flds ! 0 * THz_per_wavenumber)
                   (filter (\<lambda>flds. length flds = 2 \<and> 5 / 1000 < flds ! 0 * THz_per_wavenumber) lines),
                 map (\<lambda>flds. flds ! 1)
                   (filter (\<lambda>flds. length flds = 2 \<and> 5 / 1000 < flds ! 0 * THz_per_wavenumber) lines)))"
proof
  show "sorted (fst (LIV_generateVectorsFromFile srt fs path))"
    using std_sort_sorted [OF assms, of fst]
    by (simp add: LIV_generateVectorsFromFile_def Let_def split: option.split)
  show "Spectra_generateVectorsFromFile fs path =
           (case fs path of
              None \<Rightarrow> ([], [])
            | Some lines \<Rightarrow>
                (map (\<lambda>flds. flds ! 0 * THz_per_wavenumber)
                   (filter (\<lambda>flds. length flds = 2 \<and> 5 / 1000 < flds ! 0 * THz_per_wavenumber) lines),
                 map (\<lambda>flds. flds ! 1)
                   (filter (\<lambda>flds. length flds = 2 \<and> 5 / 1000 < flds ! 0 * THz_per_wavenumber) lines)))"
    by (simp add: Spectra_generateVectorsFromFile_def Spectra_collect_points_filter Let_def comp_def
        split: option.split)
qed

theorem LIV_parse_sorted_Spectra_parse_in_file_order_witness:
  "sorted (fst (LIV_generateVectorsFromFile sort_key
     [''liv.txt'' \<mapsto> [[2, 5, 7], [1, 4, 6], [0, 1, 1]]] ''liv.txt'')) \<and>
   fst (LIV_generateVectorsFromFile sort_key
     [''liv.txt'' \<mapsto> [[2, 5, 7], [1, 4, 6], [0, 1, 1]]] ''liv.txt'') = [1, 2]"
  using LIV_parse_sorted_Spectra_parse_in_file_order [OF std_sort_contract_sort_key,
      of "[''liv.txt'' \<mapsto> [[2, 5, 7], [1, 4, 6], [0, 1, 1]]]" "''liv.txt''"]
  by (simp add: LIV_generateVectorsFromFile_def Let_def)

lemma descending_spectrum_parsed:
  "fst (Spectra_generateVectorsFromFile [''spectrum.txt'' \<mapsto> [[200, 1], [100, 2]]] ''spectrum.txt'') =
     [200 * THz_per_wavenumber, 100 * THz_per_wavenumber]"
  by (simp add: Spectra_generateVectorsFromFile_def Let_def) (simp add: THz_per_wavenumber_def)

text \<open>
  Claim C1 as stated fails on the two-column path: a readable spectrum file whose rows
  run from high to low wavenumber is returned in that order.
\<close>

theorem Spectra_parse_not_sorted:
  "\<not> sorted (fst (Spectra_generateVectorsFromFile
       [''spectrum.txt'' \<mapsto> [[200, 1], [100, 2]]] ''spectrum.txt''))"
proof -
  have "0 < THz_per_wavenumber"
    by (simp add: THz_per_wavenumber_def)
  then show ?thesis
    unfolding descending_spectrum_parsed by simp
qed

text \<open>
  Claim C8. A row whose first column is at most 0.005 never reaches the parsed trace.
  Every point the three-column parser returns is a three-field row of the file and has
  x above 0.005. Every point the two-column parser returns comes from a two-field row of
  the file whose first column is above 0.005 before the conversion to THz and still above
  0.005 after it.
\<close>

theorem noise_floor_filter:
  assumes "std_sort_contract srt"
    and "fs path = Some lines"
    and "LIV_generateVectorsFromFile srt fs path = (xs, y1s, y2s)"
    and "Spectra_generateVectorsFromFile fs path = (freqs, amps)"
  shows "(\<forall>i<length xs. 5 / 1000 < xs ! i \<and> [xs ! i, y1s ! i, y2s ! i] \<in> set lines) \<and>
         (\<forall>i<length freqs. 5 / 1000 < freqs ! i \<and>
            (\<exists>flds\<in>set lines. length flds = 2 \<and> 5 / 1000 < flds ! 0 \<and>
               freqs ! i = flds ! 0 * THz_per_wavenumber \<and> amps ! i = flds ! 1))"
proof (intro conjI allI impI)
  fix i assume i: "i < length xs"
  define ps where "ps = srt fst (LIV_collect_points lines)"
  have xs: "xs = map fst ps" and y1s: "y1s = map (\<lambda>p. fst (snd p)) ps"
    and y2s: "y2s = map (\<lambda>p. snd (snd p)) ps"
    using LIV_generateVectorsFromFile_points [OF assms(2,3)] by (simp_all add: ps_def)
  from i xs have "ps ! i \<in> set ps" by simp
  then have "ps ! i \<in> set (LIV_collect_points lines)"
    by (simp add: ps_def std_sort_set [OF assms(1)])
  then obtain flds where f: "flds \<in> set lines" "length flds = 3" "5 / 1000 < flds ! 0"
    "ps ! i = (flds ! 0, flds ! 1, flds ! 2)"
    by (auto simp: LIV_collect_points_filter)
  have "flds = [flds ! 0, flds ! 1, flds ! 2]"
    using f(2) by (auto simp: list_eq_iff_nth_eq less_Suc_eq numeral_3_eq_3 numeral_2_eq_2)
  with f i xs y1s y2s show "5 / 1000 < xs ! i" "[xs ! i, y1s ! i, y2s ! i] \<in> set lines"
    by simp_all
next
  fix i assume i: "i < length freqs"
  define rs where
    "rs = filter (\<lambda>flds. length flds = 2 \<and> 5 / 1000 < flds ! 0 * THz_per_wavenumber) lines"
  have fr: "freqs = map (\<lambda>flds. flds ! 0 * THz_per_wavenumber) rs"
    and am: "amps = map (\<lambda>flds. flds ! 1) rs"
    using assms(2,4)
    by (simp_all add: Spectra_generateVectorsFromFile_def Spectra_collect_points_filter Let_def
        comp_def rs_def)
  from i fr have "rs ! i \<in> set rs" by simp
  then have r: "rs ! i \<in> set lines" "length (rs ! i) = 2"
    "5 / 1000 < rs ! i ! 0 * THz_per_wavenumber"
    by (simp_all add: rs_def)
  from r(3) have "5 / 1000 < rs ! i ! 0"
    by (rule THz_conversion_above_floor)
  with r i fr am show "5 / 1000 < freqs ! i"
    "\<exists>flds\<in>set lines. length flds = 2 \<and> 5 / 1000 < flds ! 0 \<and>
       freqs ! i = flds ! 0 * THz_per_wavenumber \<and> amps ! i = flds ! 1"
    by auto
qed

theorem noise_floor_filter_witness:
  "LIV_generateVectorsFromFile sort_key
     [''mixed.txt'' \<mapsto> [[1, 2, 3], [1 / 1000, 2, 3], [300, 1], [1 / 10, 1]]] ''mixed.txt'' =
     ([1], [2], [3]) \<and>
   Spectra_generateVectorsFromFile
     [''mixed.txt'' \<mapsto> [[1, 2, 3], [1 / 1000, 2, 3], [300, 1], [1 / 10, 1]]] ''mixed.txt'' =
     ([300 * THz_per_wavenumber], [1]) \<and>
   5 / 1000 < [1::real] ! 0 \<and> 5 / 1000 < [300 * THz_per_wavenumber] ! 0"
proof -
  let ?lines = "[[1, 2, 3], [1 / 1000, 2, 3], [300, 1], [1 / 10, 1 :: real]]"
  let ?fs = "[''mixed.txt'' \<mapsto> ?lines]"
  have h2: "?fs ''mixed.txt'' = Some ?lines"
    by simp
  have h3: "LIV_generateVectorsFromFile sort_key ?fs ''mixed.txt'' = ([1], [2], [3])"
    by (simp add: LIV_generateVectorsFromFile_def Let_def)
  have h4: "Spectra_generateVectorsFromFile ?fs ''mixed.txt'' = ([300 * THz_per_wavenumber], [1])"
    by (simp add: Spectra_generateVectorsFromFile_def Let_def) (simp add: THz_per_wavenumber_def)
  from noise_floor_filter [OF std_sort_contract_sort_key h2 h3 h4]
  have "5 / 1000 < [1::real] ! 0" "5 / 1000 < [300 * THz_per_wavenumber] ! 0"
    by simp_all
  with h3 h4 show ?thesis
    by blast
qed

section \<open>LIV construction and normalization\<close>

lemma DBL_MAX_pos: "0 < DBL_MAX"
  by (simp add: DBL_MAX_def)

lemma LIV_append_trace_fields:
  "liv_xList (LIV_append_trace st t) = liv_xList st @ [liv_x t]"
  "liv_y1List (LIV_append_trace st t) = liv_y1List st @ [liv_y1 t]"
  "liv_y2List (LIV_append_trace st t) = liv_y2List st @ [liv_y2 t]"
  "liv_valueList (LIV_append_trace st t) = liv_valueList st @ [liv_valueStr t]"
  "liv_scaleFactor (LIV_append_trace st t) = liv_scaleFactor st"
  "liv_preNormMaxY2 (LIV_append_trace st t) =
     (if liv_y2 t \<noteq> [] then max (liv_preNormMaxY2 st) (Max (set (liv_y2 t)))
      else liv_preNormMaxY2 st)"
  by (simp_all add: LIV_append_trace_def)

lemma foldl_LIV_append_trace_y2List:
  "liv_y2List (foldl LIV_append_trace st ts) = liv_y2List st @ map liv_y2 ts"
  by (induction ts arbitrary: st) (simp_all add: LIV_append_trace_fields)

lemma foldl_LIV_append_trace_valueList:
  "liv_valueList (foldl LIV_append_trace st ts) = liv_valueList st @ map liv_valueStr ts"
  by (induction ts arbitrary: st) (simp_all add: LIV_append_trace_fields)

lemma foldl_LIV_append_trace_xList:
  "liv_xList (foldl LIV_append_trace st ts) = liv_xList st @ map liv_x ts"
  by (induction ts arbitrary: st) (simp_all add: LIV_append_trace_fields)

lemma foldl_LIV_append_trace_scaleFactor:
  "liv_scaleFactor (foldl LIV_append_trace st ts) = liv_scaleFactor st"
  by (induction ts arbitrary: st) (simp_all add: LIV_append_trace_fields)

lemma foldl_LIV_append_trace_preNormMaxY2:
  "liv_preNormMaxY2 (foldl LIV_append_trace st ts) =
     Max (insert (liv_preNormMaxY2 st) (set (concat (map liv_y2 ts))))"
proof (induction ts arbitrary: st)
  case Nil
  show ?case by simp
next
  case (Cons t ts)
  show ?case
  proof (cases "liv_y2 t = []")
    case True
    then show ?thesis
      by (simp add: Cons.IH LIV_append_trace_fields)
  next
    case False
    have "Max (insert (max (liv_preNormMaxY2 st) (Max (set (liv_y2 t)))) (set (concat (map liv_y2 ts)))) =
          Max (insert (liv_preNormMaxY2 st) (set (liv_y2 t) \<union> set (concat (map liv_y2 ts))))"
    proof -
      let ?A = "set (liv_y2 t)" and ?B = "set (concat (map liv_y2 ts))"
      have "Max (insert (liv_preNormMaxY2 st) (?A \<union> ?B)) =
            Max ({liv_preNormMaxY2 st} \<union> ?A \<union> ?B)" by simp
      show ?thesis
      proof (cases "?B = {}")
        case True
        with False show ?thesis
          by (simp add: max.commute)
      next
        case nonempty: False
        have "Max (insert (liv_preNormMaxY2 st) (?A \<union> ?B)) =
              max (liv_preNormMaxY2 st) (max (Max ?A) (Max ?B))"
          using False nonempty by (simp add: Max_Un)
        moreover have "Max (insert (max (liv_preNormMaxY2 st) (Max ?A)) ?B) =
              max (max (liv_preNormMaxY2 st) (Max ?A)) (Max ?B)"
          using nonempty by simp
        ultimately show ?thesis
          by (simp add: max.assoc)
      qed
    qed
    with False show ?thesis
      by (simp add: Cons.IH LIV_append_trace_fields)
  qed
qed

lemma LIV_parsed_preNormMaxY2:
  assumes "\<forall>v\<in>set (concat (liv_y2List (LIV_parsed srtP srtT toDouble fs files sf))). - DBL_MAX \<le> v"
    and "concat (liv_y2List (LIV_parsed srtP srtT toDouble fs files sf)) \<noteq> []"
  shows "liv_preNormMaxY2 (LIV_parsed srtP srtT toDouble fs files sf) =
         Max (set (concat (liv_y2List (LIV_parsed srtP srtT toDouble fs files sf))))"
proof -
  let ?ts = "LIV_sorted_traces srtP srtT toDouble fs files"
  have raw: "liv_y2List (LIV_parsed srtP srtT toDouble fs files sf) = map liv_y2 ?ts"
    by (simp add: LIV_parsed_def LIV_generateVectors_def foldl_LIV_append_trace_y2List LIV_initial_def)
  let ?S = "set (concat (map liv_y2 ?ts))"
  have ne: "?S \<noteq> {}" and fin: "finite ?S"
    using assms(2) unfolding raw by simp_all
  have "- DBL_MAX \<le> Max ?S"
    using assms(1) ne fin unfolding raw by (meson Max_in)
  then have "Max (insert (- DBL_MAX) ?S) = Max ?S"
    using ne fin by (simp add: max_def)
  then show ?thesis
    unfolding raw
    by (simp add: LIV_parsed_def LIV_generateVectors_def foldl_LIV_append_trace_preNormMaxY2
        LIV_initial_def)
qed

lemma LIV_parsed_scaleFactor:
  "liv_scaleFactor (LIV_parsed srtP srtT toDouble fs files sf) = sf"
  by (simp add: LIV_parsed_def LIV_generateVectors_def foldl_LIV_append_trace_scaleFactor
      LIV_initial_def)

lemma map_map_no_points:
  "concat xss = [] \<Longrightarrow> map (map f) xss = xss"
  by (induction xss) simp_all

text \<open>
  Claim C7. When the constructor has run, every optical value is the value that
  \<open>generateVectors\<close> parsed, divided by one reference for the whole set and multiplied
  by \<open>scaleFactor\<close>. The reference is the largest parsed optical value over all traces,
  or 1 when that maximum is 0. Called without a scale factor the constructor uses 100.
  The hypothesis says that the parsed values are doubles: none is below
  \<open>std::numeric_limits<double>::lowest()\<close>, the initial value of \<open>preNormMaxY2\<close>.
\<close>

theorem LIV_global_normalization:
  assumes "\<forall>v\<in>set (concat (liv_y2List (LIV_parsed srtP srtT toDouble fs files sf))). - DBL_MAX \<le> v"
  shows "liv_y2List (LIVDataProcessor_ctor srtP srtT toDouble fs files sf) =
           map (map (\<lambda>v.
                  v / (if Max (set (concat (liv_y2List (LIV_parsed srtP srtT toDouble fs files sf)))) = 0
                       then 1
                       else Max (set (concat (liv_y2List (LIV_parsed srtP srtT toDouble fs files sf)))))
                  * sf))
             (liv_y2List (LIV_parsed srtP srtT toDouble fs files sf)) \<and>
         liv_scaleFactor (LIVDataProcessor_ctor_default srtP srtT toDouble fs files) = 100 \<and>
         LIVDataProcessor_ctor_default srtP srtT toDouble fs files =
           LIVDataProcessor_ctor srtP srtT toDouble fs files 100"
proof (intro conjI)
  let ?st = "LIV_parsed srtP srtT toDouble fs files sf"
  show "liv_y2List (LIVDataProcessor_ctor srtP srtT toDouble fs files sf) =
           map (map (\<lambda>v. v / (if Max (set (concat (liv_y2List ?st))) = 0 then 1
                       else Max (set (concat (liv_y2List ?st)))) * sf)) (liv_y2List ?st)"
  proof (cases "concat (liv_y2List ?st) = []")
    case True
    then have "map (map f) (liv_y2List ?st) = liv_y2List ?st" for f :: "real \<Rightarrow> real"
      by (rule map_map_no_points)
    then show ?thesis
      by (simp add: LIVDataProcessor_ctor_def LIV_normalizeData_def Let_def)
  next
    case False
    then have "liv_y2List ?st \<noteq> []" by auto
    then show ?thesis
      using LIV_parsed_preNormMaxY2 [OF assms False]
      by (simp add: LIVDataProcessor_ctor_def LIV_normalizeData_def Let_def LIV_parsed_scaleFactor)
  qed
  show "liv_scaleFactor (LIVDataProcessor_ctor_default srtP srtT toDouble fs files) = 100"
    by (simp add: LIVDataProcessor_ctor_default_def LIVDataProcessor_ctor_def
        LIV_normalizeData_def Let_def LIV_parsed_scaleFactor)
  show "LIVDataProcessor_ctor_default srtP srtT toDouble fs files =
           LIVDataProcessor_ctor srtP srtT toDouble fs files 100"
    by (simp add: LIVDataProcessor_ctor_default_def)
qed

theorem LIV_global_normalization_witness:
  "liv_y2List (LIV_parsed sort_key sort_key (\<lambda>s. if s = ''10'' then 10 else 30)
      [''a.txt'' \<mapsto> [[1, 1, 2], [2, 1, 4]], ''b.txt'' \<mapsto> [[1, 1, 8]]]
      [(''a.txt'', ''10''), (''b.txt'', ''30'')] 100) = [[2, 4], [8]] \<and>
   liv_y2List (LIVDataProcessor_ctor sort_key sort_key (\<lambda>s. if s = ''10'' then 10 else 30)
      [''a.txt'' \<mapsto> [[1, 1, 2], [2, 1, 4]], ''b.txt'' \<mapsto> [[1, 1, 8]]]
      [(''a.txt'', ''10''), (''b.txt'', ''30'')] 100) = [[25, 50], [100]]"
proof -
  let ?toD = "\<lambda>s. if s = ''10'' then 10 else (30::real)"
  let ?fs = "[''a.txt'' \<mapsto> [[1, 1, 2], [2, 1, 4]], ''b.txt'' \<mapsto> [[1, 1, 8 :: real]]]"
  let ?files = "[(''a.txt'', ''10''), (''b.txt'', ''30'')]"
  have raw: "liv_y2List (LIV_parsed sort_key sort_key ?toD ?fs ?files 100) = [[2, 4], [8]]"
    by (simp add: LIV_parsed_def LIV_generateVectors_def LIV_sorted_traces_def LIV_read_trace_def
        LIV_generateVectorsFromFile_def LIV_initial_def LIV_append_trace_fields Let_def)
  have range: "\<forall>v\<in>set (concat (liv_y2List (LIV_parsed sort_key sort_key ?toD ?fs ?files 100))).
      - DBL_MAX \<le> v"
    unfolding raw using DBL_MAX_pos by simp
  from LIV_global_normalization [OF range]
  have "liv_y2List (LIVDataProcessor_ctor sort_key sort_key ?toD ?fs ?files 100) = [[25, 50], [100]]"
    unfolding raw by simp
  with raw show ?thesis
    by blast
qed


section \<open>Order of the traces in a trace set\<close>

lemma Spectra_append_trace_fields:
  "sp_valueList (Spectra_append_trace st t) = sp_valueList st @ [sp_valueStr t]"
  "sp_xList (Spectra_append_trace st t) = sp_xList st @ [sp_x t]"
  "sp_y1List (Spectra_append_trace st t) = sp_y1List st @ [sp_y1 t]"
  "sp_centerModeData (Spectra_append_trace st t) = sp_centerModeData st"
  "sp_sideModeData (Spectra_append_trace st t) = sp_sideModeData st"
  "sp_fmin (Spectra_append_trace st t) = sp_fmin st"
  "sp_fmax (Spectra_append_trace st t) = sp_fmax st"
  by (simp_all add: Spectra_append_trace_def)

lemma foldl_Spectra_append_trace:
  "sp_valueList (foldl Spectra_append_trace st ts) = sp_valueList st @ map sp_valueStr ts"
  "sp_xList (foldl Spectra_append_trace st ts) = sp_xList st @ map sp_x ts"
  "sp_y1List (foldl Spectra_append_trace st ts) = sp_y1List st @ map sp_y1 ts"
  "sp_centerModeData (foldl Spectra_append_trace st ts) = sp_centerModeData st"
  "sp_sideModeData (foldl Spectra_append_trace st ts) = sp_sideModeData st"
  "sp_fmin (foldl Spectra_append_trace st ts) = sp_fmin st"
  "sp_fmax (foldl Spectra_append_trace st ts) = sp_fmax st"
  by (induction ts arbitrary: st) (simp_all add: Spectra_append_trace_fields)

lemma calculate_peaks_keeps:
  assumes "calculate_peaks i st = Inr st'"
  shows "sp_valueList st' = sp_valueList st" "sp_xList st' = sp_xList st"
    "sp_y1List st' = sp_y1List st" "sp_fmin st' = sp_fmin st" "sp_fmax st' = sp_fmax st"
  using assms
  by (auto simp: calculate_peaks_def Let_def split: if_splits sum.splits)

lemma for_each_calculate_peaks_keeps:
  assumes "for_each calculate_peaks is st = Inr st'"
  shows "sp_valueList st' = sp_valueList st \<and> sp_xList st' = sp_xList st \<and>
    sp_y1List st' = sp_y1List st \<and> sp_fmin st' = sp_fmin st \<and> sp_fmax st' = sp_fmax st"
  using assms
proof (induction "is" arbitrary: st)
  case Nil
  then show ?case by simp
next
  case (Cons i "is")
  from Cons.prems obtain s where s: "calculate_peaks i st = Inr s"
    and r: "for_each calculate_peaks is s = Inr st'"
    by (auto split: sum.splits)
  from Cons.IH [OF r] calculate_peaks_keeps [OF s] show ?case by simp
qed

lemma LIV_read_trace_fields:
  "liv_valueStr (LIV_read_trace srt fs entry) = snd entry"
  "liv_x (LIV_read_trace srt fs entry) = fst (LIV_generateVectorsFromFile srt fs (fst entry))"
  by (simp_all add: LIV_read_trace_def split: prod.split)

lemma LIV_read_trace_columns:
  "(liv_valueStr (LIV_read_trace srt fs entry), liv_x (LIV_read_trace srt fs entry),
    liv_y1 (LIV_read_trace srt fs entry), liv_y2 (LIV_read_trace srt fs entry)) =
   (snd entry, LIV_generateVectorsFromFile srt fs (fst entry))"
  by (simp add: LIV_read_trace_def split: prod.split)

lemma foldl_LIV_append_trace_y1List:
  "liv_y1List (foldl LIV_append_trace st ts) = liv_y1List st @ map liv_y1 ts"
  by (induction ts arbitrary: st) (simp_all add: LIV_append_trace_fields)

lemma Spectra_read_trace_fields:
  "(sp_valueStr (Spectra_read_trace fs entry), sp_x (Spectra_read_trace fs entry),
    sp_y1 (Spectra_read_trace fs entry)) = (snd entry, Spectra_generateVectorsFromFile fs (fst entry))"
  by (simp add: Spectra_read_trace_def split: prod.split)

lemma zip_map_same:
  "zip (map f xs) (map g xs) = map (\<lambda>x. (f x, g x)) xs"
  by (induction xs) simp_all

text \<open>
  Claim C2, as the code has it. The trace set lists the traces in ascending order of the
  label read as a double, and it is a rearrangement of the traces read from the files:
  every label stays with all the columns of its file (\<open>x\<close>, \<open>y1\<close> and \<open>y2\<close> of an LIV
  file, \<open>x\<close> and \<open>y1\<close> of a spectrum). This holds for the LIV trace set and for the
  spectra trace set, whenever \<open>std::sort\<close> keeps its contract. Nothing is promised about
  the order of two traces whose labels are equal as doubles.
\<close>

theorem traces_sorted_by_label:
  assumes "std_sort_contract srtL" and "std_sort_contract srtS"
  shows "sorted (map toDouble (liv_valueList (LIV_parsed srtP srtL toDouble fs files sf))) \<and>
         mset (zip (liv_valueList (LIV_parsed srtP srtL toDouble fs files sf))
                (zip (liv_xList (LIV_parsed srtP srtL toDouble fs files sf))
                   (zip (liv_y1List (LIV_parsed srtP srtL toDouble fs files sf))
                        (liv_y2List (LIV_parsed srtP srtL toDouble fs files sf))))) =
           mset (map (\<lambda>entry. (snd entry, LIV_generateVectorsFromFile srtP fs (fst entry))) files) \<and>
         (\<forall>st. Spectra_generateVectors srtS toDouble fs files (Spectra_initial fmin fmax) = Inr st \<longrightarrow>
            sorted (map toDouble (sp_valueList st)) \<and>
            mset (zip (sp_valueList st) (zip (sp_xList st) (sp_y1List st))) =
              mset (map (\<lambda>entry. (snd entry, Spectra_generateVectorsFromFile fs (fst entry))) files))"
proof (intro conjI allI impI)
  let ?ts = "LIV_sorted_traces srtP srtL toDouble fs files"
  have v: "liv_valueList (LIV_parsed srtP srtL toDouble fs files sf) = map liv_valueStr ?ts"
    and x: "liv_xList (LIV_parsed srtP srtL toDouble fs files sf) = map liv_x ?ts"
    and y1: "liv_y1List (LIV_parsed srtP srtL toDouble fs files sf) = map liv_y1 ?ts"
    and y2: "liv_y2List (LIV_parsed srtP srtL toDouble fs files sf) = map liv_y2 ?ts"
    by (simp_all add: LIV_parsed_def LIV_generateVectors_def foldl_LIV_append_trace_valueList
        foldl_LIV_append_trace_xList foldl_LIV_append_trace_y1List foldl_LIV_append_trace_y2List
        LIV_initial_def)
  show "sorted (map toDouble (liv_valueList (LIV_parsed srtP srtL toDouble fs files sf)))"
    using std_sort_sorted [OF assms(1), of "\<lambda>t. toDouble (liv_valueStr t)"]
    by (simp add: v LIV_sorted_traces_def comp_def)
  have "mset ?ts = mset (map (LIV_read_trace srtP fs) files)"
    using assms(1) by (simp add: LIV_sorted_traces_def std_sort_contract_def)
  then have "image_mset (\<lambda>t. (liv_valueStr t, liv_x t, liv_y1 t, liv_y2 t)) (mset ?ts) =
             image_mset (\<lambda>t. (liv_valueStr t, liv_x t, liv_y1 t, liv_y2 t))
               (mset (map (LIV_read_trace srtP fs) files))"
    by simp
  also have "\<dots> = mset (map (\<lambda>entry. (liv_valueStr (LIV_read_trace srtP fs entry),
                                       liv_x (LIV_read_trace srtP fs entry),
                                       liv_y1 (LIV_read_trace srtP fs entry),
                                       liv_y2 (LIV_read_trace srtP fs entry))) files)"
    by (simp add: multiset.map_comp comp_def)
  also have "\<dots> = mset (map (\<lambda>entry. (snd entry, LIV_generateVectorsFromFile srtP fs (fst entry))) files)"
    by (simp only: LIV_read_trace_columns)
  finally show "mset (zip (liv_valueList (LIV_parsed srtP srtL toDouble fs files sf))
                (zip (liv_xList (LIV_parsed srtP srtL toDouble fs files sf))
                   (zip (liv_y1List (LIV_parsed srtP srtL toDouble fs files sf))
                        (liv_y2List (LIV_parsed srtP srtL toDouble fs files sf))))) =
           mset (map (\<lambda>entry. (snd entry, LIV_generateVectorsFromFile srtP fs (fst entry))) files)"
    by (simp add: v x y1 y2 zip_map_same)
next
  fix st
  assume g: "Spectra_generateVectors srtS toDouble fs files (Spectra_initial fmin fmax) = Inr st"
  let ?ts = "Spectra_sorted_traces srtS toDouble fs files"
  let ?p = "foldl Spectra_append_trace (Spectra_initial fmin fmax) ?ts"
  from g have "for_each calculate_peaks [0..<length (sp_xList ?p)] ?p = Inr st"
    by (simp add: Spectra_generateVectors_def Let_def)
  from for_each_calculate_peaks_keeps [OF this]
  have v: "sp_valueList st = map sp_valueStr ?ts" and x: "sp_xList st = map sp_x ?ts"
    and y: "sp_y1List st = map sp_y1 ?ts"
    by (simp_all add: foldl_Spectra_append_trace Spectra_initial_def)
  show "sorted (map toDouble (sp_valueList st))"
    using std_sort_sorted [OF assms(2), of "\<lambda>t. toDouble (sp_valueStr t)"]
    by (simp add: v Spectra_sorted_traces_def comp_def)
  have "mset ?ts = mset (map (Spectra_read_trace fs) files)"
    using assms(2) by (simp add: Spectra_sorted_traces_def std_sort_contract_def)
  then have "image_mset (\<lambda>t. (sp_valueStr t, sp_x t, sp_y1 t)) (mset ?ts) =
             image_mset (\<lambda>t. (sp_valueStr t, sp_x t, sp_y1 t)) (mset (map (Spectra_read_trace fs) files))"
    by simp
  also have "\<dots> = mset (map (\<lambda>entry. (sp_valueStr (Spectra_read_trace fs entry),
                                       sp_x (Spectra_read_trace fs entry),
                                       sp_y1 (Spectra_read_trace fs entry))) files)"
    by (simp add: multiset.map_comp comp_def)
  also have "\<dots> = mset (map (\<lambda>entry. (snd entry, Spectra_generateVectorsFromFile fs (fst entry))) files)"
    by (simp only: Spectra_read_trace_fields)
  finally show "mset (zip (sp_valueList st) (zip (sp_xList st) (sp_y1List st))) =
              mset (map (\<lambda>entry. (snd entry, Spectra_generateVectorsFromFile fs (fst entry))) files)"
    by (simp add: v x y zip_map_same)
qed




lemma Spectra_two_traces_parsed:
  "Spectra_generateVectors sort_key sample_toDouble
     [''a.txt'' \<mapsto> [[100, 1]], ''b.txt'' \<mapsto> [[200, 2]]]
     [(''a.txt'', ''30''), (''b.txt'', ''10'')] (Spectra_initial 0 0) =
   Inr \<lparr>sp_fmin = 0, sp_fmax = 0,
        sp_xList = [[200 * THz_per_wavenumber], [100 * THz_per_wavenumber]],
        sp_y1List = [[2], [1]],
        sp_valueList = [''10'', ''30''],
        sp_centerModeData =
          [\<lparr>frequency = 200 * THz_per_wavenumber, amplitude = 2, fwhm = 0, qFactor = 0\<rparr>,
           \<lparr>frequency = 100 * THz_per_wavenumber, amplitude = 1, fwhm = 0, qFactor = 0\<rparr>],
        sp_sideModeData = [[], []]\<rparr>"
  by code_simp

theorem traces_sorted_by_label_witness:
  "liv_valueList (LIV_parsed sort_key sort_key sample_toDouble
      [''a.txt'' \<mapsto> [[1, 1, 1]], ''b.txt'' \<mapsto> [[2, 2, 2]], ''c.txt'' \<mapsto> [[3, 3, 3]]]
      [(''a.txt'', ''10''), (''b.txt'', ''50''), (''c.txt'', ''30'')] 100) = [''10'', ''30'', ''50''] \<and>
   sorted (map sample_toDouble (liv_valueList (LIV_parsed sort_key sort_key sample_toDouble
      [''a.txt'' \<mapsto> [[1, 1, 1]], ''b.txt'' \<mapsto> [[2, 2, 2]], ''c.txt'' \<mapsto> [[3, 3, 3]]]
      [(''a.txt'', ''10''), (''b.txt'', ''50''), (''c.txt'', ''30'')] 100))) \<and>
   sorted (map sample_toDouble [''10'', ''30''])"
proof -
  let ?fsL = "[''a.txt'' \<mapsto> [[1, 1, 1]], ''b.txt'' \<mapsto> [[2, 2, 2]], ''c.txt'' \<mapsto> [[3, 3, 3 :: real]]]"
  let ?filesL = "[(''a.txt'', ''10''), (''b.txt'', ''50''), (''c.txt'', ''30'')]"
  let ?fsS = "[''a.txt'' \<mapsto> [[100, 1]], ''b.txt'' \<mapsto> [[200, 2 :: real]]]"
  let ?filesS = "[(''a.txt'', ''30''), (''b.txt'', ''10'')]"
  note instL = traces_sorted_by_label [OF std_sort_contract_sort_key std_sort_contract_sort_key,
      where toDouble = sample_toDouble and srtP = sort_key and fs = ?fsL and files = ?filesL
        and sf = 100]
  have labels: "liv_valueList (LIV_parsed sort_key sort_key sample_toDouble ?fsL ?filesL 100) =
      [''10'', ''30'', ''50'']"
    by (simp add: LIV_parsed_def LIV_generateVectors_def LIV_sorted_traces_def LIV_read_trace_def
        LIV_generateVectorsFromFile_def LIV_initial_def LIV_append_trace_fields Let_def
        sample_toDouble_def)
  note instS = traces_sorted_by_label [OF std_sort_contract_sort_key std_sort_contract_sort_key,
      where toDouble = sample_toDouble and fs = ?fsS and files = ?filesS and fmin = 0 and fmax = 0]
  from instS Spectra_two_traces_parsed
  have "sorted (map sample_toDouble [''10'', ''30''])"
    by simp
  with instL labels show ?thesis
    by simp
qed

text \<open>
  Claim C2 as stated asks for a stable sort. The code calls \<open>std::sort\<close>, which is not
  one. With the \<open>std::sort\<close> of GNU libstdc++, seventeen files that all carry the label
  10 (file \<open>f01.txt\<close> holds the current 1, \<open>f02.txt\<close> the current 2, and so on) do not
  come out in their input order: the one partition step moves the ninth file to the front
  and reverses most of the others.
\<close>

theorem seventeen_equal_labels_reordered:
  "liv_xList (LIV_parsed (gnu_sort sort_key) (gnu_sort sort_key) sample_toDouble
      [''f01.txt'' \<mapsto> [[1, 1, 1]], ''f02.txt'' \<mapsto> [[2, 2, 2]],
       ''f03.txt'' \<mapsto> [[3, 3, 3]], ''f04.txt'' \<mapsto> [[4, 4, 4]],
       ''f05.txt'' \<mapsto> [[5, 5, 5]], ''f06.txt'' \<mapsto> [[6, 6, 6]],
       ''f07.txt'' \<mapsto> [[7, 7, 7]], ''f08.txt'' \<mapsto> [[8, 8, 8]],
       ''f09.txt'' \<mapsto> [[9, 9, 9]], ''f10.txt'' \<mapsto> [[10, 10, 10]],
       ''f11.txt'' \<mapsto> [[11, 11, 11]], ''f12.txt'' \<mapsto> [[12, 12, 12]],
       ''f13.txt'' \<mapsto> [[13, 13, 13]], ''f14.txt'' \<mapsto> [[14, 14, 14]],
       ''f15.txt'' \<mapsto> [[15, 15, 15]], ''f16.txt'' \<mapsto> [[16, 16, 16]],
       ''f17.txt'' \<mapsto> [[17, 17, 17]]]
      [(''f01.txt'', ''10''), (''f02.txt'', ''10''), (''f03.txt'', ''10''), (''f04.txt'',
       ''10''), (''f05.txt'', ''10''), (''f06.txt'', ''10''), (''f07.txt'', ''10''),
       (''f08.txt'', ''10''), (''f09.txt'', ''10''), (''f10.txt'', ''10''), (''f11.txt'',
       ''10''), (''f12.txt'', ''10''), (''f13.txt'', ''10''), (''f14.txt'', ''10''),
       (''f15.txt'', ''10''), (''f16.txt'', ''10''), (''f17.txt'', ''10'')] 100) =
   [[9], [17], [16], [15], [14], [13], [12], [11], [10], [1], [8], [7], [6], [5], [4], [3], [2]]"
  by (simp add: LIV_parsed_def LIV_generateVectors_def LIV_sorted_traces_def LIV_read_trace_def
      LIV_generateVectorsFromFile_def LIV_initial_def LIV_append_trace_fields Let_def
      sample_toDouble_def gnu_sort_def final_insertion_sort_def insertion_sort_def
      unguarded_insertion_sort_def unguarded_partition_pivot_def move_median_to_first_def
      iter_swap_def introsort_loop.simps unguarded_partition.simps scan_up.simps scan_down.simps
      unguarded_linear_insert.simps lg.simps upt_rec [of _ "numeral _"] upt_rec [of 0])


section \<open>Spectra construction: peaks before reversal and normalization\<close>















section \<open>Axis range of the spectra\<close>

lemma two_traces_constructed:
  "SpectraDataProcessor_ctor sort_key sample_toDouble
       [''a.txt'' \<mapsto> [[100, 1], [110, 5], [120, 1]],
        ''b.txt'' \<mapsto> [[150, 1], [160, 5], [170, 1]]]
       [(''a.txt'', ''10''), (''b.txt'', ''30'')] 0 0 =
   Inr \<lparr>sp_fmin = 0, sp_fmax = 0,
        sp_xList =
          [[149896229 / 50000000, 1648858519 / 500000000, 449688687 / 125000000],
           [449688687 / 100000000, 149896229 / 31250000, 2548235893 / 500000000]],
        sp_y1List = [[1 / 5, 1, 1 / 5], [1 / 5, 1, 1 / 5]],
        sp_valueList = [''10'', ''30''],
        sp_centerModeData =
          [\<lparr>frequency = 1648858519 / 500000000, amplitude = 5,
              fwhm = 149896229 / 400000000, qFactor = 44 / 5\<rparr>,
           \<lparr>frequency = 149896229 / 31250000, amplitude = 5,
              fwhm = 149896229 / 400000000, qFactor = 64 / 5\<rparr>],
        sp_sideModeData = [[], []]\<rparr>"
  by code_simp

text \<open>
  Claim C3 on two spectra whose strongest peaks differ. \<open>getXmin\<close> and \<open>getXmax\<close> start
  the window from the center peak of the first trace only and then widen it by the side
  peaks of all traces; the center peaks of the other traces are never looked at. With
  the first trace peaking near 3.30 THz and the second near 4.80 THz the returned range
  ends near 3.69 THz, below the second trace's center frequency.
\<close>

theorem getXmax_excludes_second_center_mode:
  "(let built = SpectraDataProcessor_ctor sort_key sample_toDouble
       [''a.txt'' \<mapsto> [[100, 1], [110, 5], [120, 1]],
        ''b.txt'' \<mapsto> [[150, 1], [160, 5], [170, 1]]]
       [(''a.txt'', ''10''), (''b.txt'', ''30'')] 0 0
    in \<not> isl built \<and>
       getXmin (projr built) = Inr (5805952931 / 2000000000) \<and>
       getXmax (projr built) = Inr (7384915221 / 2000000000) \<and>
       frequency (sp_centerModeData (projr built) ! 1) = 149896229 / 31250000 \<and>
       (7384915221 / 2000000000 :: real) < 149896229 / 31250000)"
  unfolding two_traces_constructed by code_simp


section \<open>Threshold analysis\<close>

lemma thresholdIndex_None:
  "thresholdIndex L threshold = None \<longleftrightarrow> (\<forall>l\<in>set L. l < threshold)"
  by (induction L) (auto simp: not_le)

lemma thresholdIndex_Some:
  "thresholdIndex L threshold = Some k \<Longrightarrow>
     k < length L \<and> L ! k \<ge> threshold \<and> (\<forall>j<k. L ! j < threshold)"
proof (induction L arbitrary: k)
  case Nil
  then show ?case by simp
next
  case (Cons l L)
  show ?case
  proof (cases "l \<ge> threshold")
    case True
    with Cons.prems show ?thesis by simp
  next
    case False
    with Cons.prems obtain k' where k': "thresholdIndex L threshold = Some k'" "k = Suc k'"
      by auto
    from Cons.IH [OF k'(1)] False k'(2) show ?thesis
      by (auto simp: less_Suc_eq_0_disj)
  qed
qed

lemma thresholdIndex_Least:
  assumes "thresholdIndex L threshold = Some k"
  shows "k = (LEAST j. j < length L \<and> L ! j \<ge> threshold)"
proof -
  from thresholdIndex_Some [OF assms]
  have k: "k < length L \<and> L ! k \<ge> threshold" and m: "\<forall>j<k. L ! j < threshold"
    by simp_all
  have "(LEAST j. j < length L \<and> L ! j \<ge> threshold) = k"
  proof (rule Least_equality)
    show "k < length L \<and> L ! k \<ge> threshold" by (rule k)
    fix j assume "j < length L \<and> L ! j \<ge> threshold"
    with m show "k \<le> j" by (meson not_le)
  qed
  then show ?thesis by simp
qed

lemma dynamic_range_prefix:
  assumes "n \<le> length L"
  shows "foldl (\<lambda>(I_min, I_max) j.
              if L ! j \<ge> threshold then (min I_min (I ! j), max I_max (I ! j))
              else (I_min, I_max))
           (lo, hi) [0..<n] =
         (Min (insert lo {I ! j |j. j < n \<and> L ! j \<ge> threshold}),
          Max (insert hi {I ! j |j. j < n \<and> L ! j \<ge> threshold}))"
  using assms
proof (induction n)
  case 0
  show ?case by simp
next
  case (Suc n)
  let ?S = "\<lambda>n. {I ! j |j. j < n \<and> L ! j \<ge> threshold}"
  have fin: "finite (?S n)" by simp
  have IH: "foldl (\<lambda>(I_min, I_max) j.
              if L ! j \<ge> threshold then (min I_min (I ! j), max I_max (I ! j))
              else (I_min, I_max))
           (lo, hi) [0..<n] = (Min (insert lo (?S n)), Max (insert hi (?S n)))"
    using Suc by simp
  show ?case
  proof (cases "L ! n \<ge> threshold")
    case True
    then have S: "?S (Suc n) = insert (I ! n) (?S n)"
      by (auto simp: less_Suc_eq)
    have "Min (insert (I ! n) (insert lo (?S n))) = min (I ! n) (Min (insert lo (?S n)))"
      using fin by (intro Min_insert) auto
    then have "min (Min (insert lo (?S n))) (I ! n) = Min (insert lo (insert (I ! n) (?S n)))"
      by (simp only: min.commute insert_commute)
    moreover have "Max (insert (I ! n) (insert hi (?S n))) = max (I ! n) (Max (insert hi (?S n)))"
      using fin by (intro Max_insert) auto
    then have "max (Max (insert hi (?S n))) (I ! n) = Max (insert hi (insert (I ! n) (?S n)))"
      by (simp only: max.commute insert_commute)
    ultimately show ?thesis
      using True by (simp add: IH S del: Min_insert Max_insert)
  next
    case False
    then have S: "?S (Suc n) = ?S n"
      by (auto simp: less_Suc_eq)
    show ?thesis
      using False by (simp add: IH S del: Min_insert Max_insert)
  qed
qed

lemma dynamic_range_bounds_eq:
  assumes "\<exists>j<length L. L ! j \<ge> threshold"
    and "\<forall>j<length L. - DBL_MAX \<le> I ! j \<and> I ! j \<le> DBL_MAX"
  shows "dynamic_range_bounds I L threshold =
         (Min {I ! j |j. j < length L \<and> L ! j \<ge> threshold},
          Max {I ! j |j. j < length L \<and> L ! j \<ge> threshold})"
proof -
  let ?S = "{I ! j |j. j < length L \<and> L ! j \<ge> threshold}"
  have fin: "finite ?S" by simp
  have ne: "?S \<noteq> {}" using assms(1) by auto
  have "\<forall>v\<in>?S. - DBL_MAX \<le> v \<and> v \<le> DBL_MAX" using assms(2) by auto
  then have "Min ?S \<le> DBL_MAX" "- DBL_MAX \<le> Max ?S"
    using fin ne by (meson Min_in Max_in)+
  moreover have "Min (insert DBL_MAX ?S) = min DBL_MAX (Min ?S)"
    "Max (insert (- DBL_MAX) ?S) = max (- DBL_MAX) (Max ?S)"
    using fin ne by (intro Min_insert Max_insert; simp)+
  ultimately have "Min (insert DBL_MAX ?S) = Min ?S" "Max (insert (- DBL_MAX) ?S) = Max ?S"
    by (simp_all only: min_def max_def) auto
  then show ?thesis
    unfolding dynamic_range_bounds_def dynamic_range_prefix [OF order_refl]
    by simp
qed


lemma process_trace_fields:
  assumes "\<forall>v\<in>set I. - DBL_MAX \<le> v \<and> v \<le> DBL_MAX"
  shows "process_trace toDouble threshold valueStr I L st =
     (if length I = length L \<and> (\<exists>l\<in>set L. l \<ge> threshold)
      then st\<lparr>ith_T := ith_T st @ [toDouble valueStr],
              ith_Ith := ith_Ith st @ [I ! (LEAST j. j < length L \<and> L ! j \<ge> threshold)],
              ith_DR := ith_DR st @
                [(Max {I ! j |j. j < length L \<and> L ! j \<ge> threshold} -
                  Min {I ! j |j. j < length L \<and> L ! j \<ge> threshold}) * 1000]\<rparr>
      else st)"
proof (cases "length I = length L")
  case False
  then show ?thesis by (simp add: process_trace_def)
next
  case len: True
  show ?thesis
  proof (cases "thresholdIndex L threshold")
    case None
    then have "\<not> (\<exists>l\<in>set L. l \<ge> threshold)"
      by (auto simp: thresholdIndex_None)
    with None show ?thesis by (simp add: process_trace_def)
  next
    case (Some k)
    note k = thresholdIndex_Some [OF Some]
    then have ex: "\<exists>j<length L. L ! j \<ge> threshold" by blast
    then have ex': "\<exists>l\<in>set L. l \<ge> threshold" by (metis nth_mem)
    have "\<forall>j<length L. - DBL_MAX \<le> I ! j \<and> I ! j \<le> DBL_MAX"
      using assms len by simp
    from dynamic_range_bounds_eq [OF ex this] thresholdIndex_Least [OF Some] Some len ex'
    show ?thesis
      by (simp add: process_trace_def Let_def)
  qed
qed

lemma process_from_eq:
  assumes "\<forall>idx\<in>set idxs. idx < length (liv_xList data) \<and> idx < length (liv_y2List data)"
    and "\<forall>I\<in>set (liv_xList data). \<forall>v\<in>set I. - DBL_MAX \<le> v \<and> v \<le> DBL_MAX"
  shows "\<exists>st'. process_from toDouble data threshold idxs st = Inr st' \<and>
     ith_T st' = ith_T st @ map (\<lambda>idx. toDouble (liv_valueList data ! idx))
       (filter (\<lambda>idx. length (liv_xList data ! idx) = length (liv_y2List data ! idx) \<and>
                       (\<exists>l\<in>set (liv_y2List data ! idx). l \<ge> threshold)) idxs) \<and>
     ith_Ith st' = ith_Ith st @
       map (\<lambda>idx. liv_xList data ! idx !
                    (LEAST j. j < length (liv_y2List data ! idx) \<and> liv_y2List data ! idx ! j \<ge> threshold))
       (filter (\<lambda>idx. length (liv_xList data ! idx) = length (liv_y2List data ! idx) \<and>
                       (\<exists>l\<in>set (liv_y2List data ! idx). l \<ge> threshold)) idxs) \<and>
     ith_DR st' = ith_DR st @
       map (\<lambda>idx. (Max {liv_xList data ! idx ! j |j.
                          j < length (liv_y2List data ! idx) \<and> liv_y2List data ! idx ! j \<ge> threshold} -
                    Min {liv_xList data ! idx ! j |j.
                          j < length (liv_y2List data ! idx) \<and> liv_y2List data ! idx ! j \<ge> threshold}) * 1000)
       (filter (\<lambda>idx. length (liv_xList data ! idx) = length (liv_y2List data ! idx) \<and>
                       (\<exists>l\<in>set (liv_y2List data ! idx). l \<ge> threshold)) idxs)"
  using assms(1)
proof (induction idxs arbitrary: st)
  case Nil
  show ?case by simp
next
  case (Cons idx idxs)
  have idx: "idx < length (liv_xList data)" "idx < length (liv_y2List data)"
    using Cons.prems by simp_all
  have r: "\<forall>v\<in>set (liv_xList data ! idx). - DBL_MAX \<le> v \<and> v \<le> DBL_MAX"
    using assms(2) idx(1) by (meson nth_mem)
  let ?s = "process_trace toDouble threshold (liv_valueList data ! idx)
              (liv_xList data ! idx) (liv_y2List data ! idx) st"
  have step: "process_from toDouble data threshold (idx # idxs) st =
      process_from toDouble data threshold idxs ?s"
    using idx by simp
  from Cons.prems have "\<forall>idx\<in>set idxs. idx < length (liv_xList data) \<and> idx < length (liv_y2List data)"
    by simp
  from Cons.IH [OF this, of ?s] obtain st' where
    st': "process_from toDouble data threshold idxs ?s = Inr st'"
    and T: "ith_T st' = ith_T ?s @ map (\<lambda>idx. toDouble (liv_valueList data ! idx))
       (filter (\<lambda>idx. length (liv_xList data ! idx) = length (liv_y2List data ! idx) \<and>
                       (\<exists>l\<in>set (liv_y2List data ! idx). l \<ge> threshold)) idxs)"
    and I: "ith_Ith st' = ith_Ith ?s @
       map (\<lambda>idx. liv_xList data ! idx !
                    (LEAST j. j < length (liv_y2List data ! idx) \<and> liv_y2List data ! idx ! j \<ge> threshold))
       (filter (\<lambda>idx. length (liv_xList data ! idx) = length (liv_y2List data ! idx) \<and>
                       (\<exists>l\<in>set (liv_y2List data ! idx). l \<ge> threshold)) idxs)"
    and D: "ith_DR st' = ith_DR ?s @
       map (\<lambda>idx. (Max {liv_xList data ! idx ! j |j.
                          j < length (liv_y2List data ! idx) \<and> liv_y2List data ! idx ! j \<ge> threshold} -
                    Min {liv_xList data ! idx ! j |j.
                          j < length (liv_y2List data ! idx) \<and> liv_y2List data ! idx ! j \<ge> threshold}) * 1000)
       (filter (\<lambda>idx. length (liv_xList data ! idx) = length (liv_y2List data ! idx) \<and>
                       (\<exists>l\<in>set (liv_y2List data ! idx). l \<ge> threshold)) idxs)"
    by blast
  show ?case
  proof (cases "length (liv_xList data ! idx) = length (liv_y2List data ! idx) \<and>
                (\<exists>l\<in>set (liv_y2List data ! idx). l \<ge> threshold)")
    case True
    then have s: "ith_T ?s = ith_T st @ [toDouble (liv_valueList data ! idx)]"
      "ith_Ith ?s = ith_Ith st @ [liv_xList data ! idx !
          (LEAST j. j < length (liv_y2List data ! idx) \<and> liv_y2List data ! idx ! j \<ge> threshold)]"
      "ith_DR ?s = ith_DR st @
         [(Max {liv_xList data ! idx ! j |j.
                  j < length (liv_y2List data ! idx) \<and> liv_y2List data ! idx ! j \<ge> threshold} -
           Min {liv_xList data ! idx ! j |j.
                  j < length (liv_y2List data ! idx) \<and> liv_y2List data ! idx ! j \<ge> threshold}) * 1000]"
      by (simp_all add: process_trace_fields [OF r])
    show ?thesis
      unfolding step using True st' by (simp add: T I D s)
  next
    case False
    then have s: "?s = st"
      by (simp add: process_trace_fields [OF r])
    show ?thesis
      unfolding step using False st' by (simp add: T I D s)
  qed
qed


text \<open>
  Claim C5. The traces that survive the threshold analysis are those whose \<open>I\<close> and
  \<open>L\<close> vectors have the same length and whose \<open>L\<close> reaches the threshold somewhere; the
  others contribute nothing. The survivors are taken in the order of the trace set. For
  each of them \<open>T\<close> is the label as a double, \<open>Ith\<close> is \<open>I\<close> at the first index with
  \<open>L[j] \<ge> threshold\<close>, and the dynamic range is the largest minus the smallest \<open>I[j]\<close>
  over all \<open>j\<close> with \<open>L[j] \<ge> threshold\<close>, times 1000. The hypotheses say that the
  processor holds as many \<open>x\<close> and \<open>y2\<close> vectors as labels, as every constructed
  \<open>LIVDataProcessor\<close> does, and that the currents are doubles.
\<close>

theorem threshold_analysis:
  assumes "length (liv_xList data) = length (liv_valueList data)"
    and "length (liv_y2List data) = length (liv_valueList data)"
    and "\<forall>I\<in>set (liv_xList data). \<forall>v\<in>set I. - DBL_MAX \<le> v \<and> v \<le> DBL_MAX"
  shows "\<exists>st'. IthDataProcessor_ctor toDouble data threshold uninit = Inr st' \<and>
     ith_T st' = map (\<lambda>idx. toDouble (liv_valueList data ! idx))
       (filter (\<lambda>idx. length (liv_xList data ! idx) = length (liv_y2List data ! idx) \<and>
                       (\<exists>l\<in>set (liv_y2List data ! idx). l \<ge> threshold))
          [0..<length (liv_valueList data)]) \<and>
     ith_Ith st' =
       map (\<lambda>idx. liv_xList data ! idx !
                    (LEAST j. j < length (liv_y2List data ! idx) \<and> liv_y2List data ! idx ! j \<ge> threshold))
       (filter (\<lambda>idx. length (liv_xList data ! idx) = length (liv_y2List data ! idx) \<and>
                       (\<exists>l\<in>set (liv_y2List data ! idx). l \<ge> threshold))
          [0..<length (liv_valueList data)]) \<and>
     ith_DR st' =
       map (\<lambda>idx. (Max {liv_xList data ! idx ! j |j.
                          j < length (liv_y2List data ! idx) \<and> liv_y2List data ! idx ! j \<ge> threshold} -
                    Min {liv_xList data ! idx ! j |j.
                          j < length (liv_y2List data ! idx) \<and> liv_y2List data ! idx ! j \<ge> threshold}) * 1000)
       (filter (\<lambda>idx. length (liv_xList data ! idx) = length (liv_y2List data ! idx) \<and>
                       (\<exists>l\<in>set (liv_y2List data ! idx). l \<ge> threshold))
          [0..<length (liv_valueList data)])"
proof -
  have "\<forall>idx\<in>set [0..<length (liv_valueList data)].
      idx < length (liv_xList data) \<and> idx < length (liv_y2List data)"
    using assms(1,2) by simp
  from process_from_eq [OF this assms(3),
      of toDouble threshold "uninit\<lparr>ith_T := [], ith_Ith := [], ith_DR := [], ith_polynomialCoefficients := []\<rparr>"]
  show ?thesis
    by (simp add: IthDataProcessor_ctor_def process_def)
qed

lemma DBL_MAX_ge_1: "1 \<le> DBL_MAX"
  by (simp add: DBL_MAX_def)

lemma two_LIV_traces_constructed:
  "liv_valueList (LIVDataProcessor_ctor sort_key sort_key sample_toDouble
      [''a.txt'' \<mapsto> [[1 / 10, 1, 0], [1 / 5, 1, 2], [3 / 10, 1, 4]],
       ''b.txt'' \<mapsto> [[1 / 10, 1, 0], [1 / 5, 1, 1 / 25]]]
      [(''a.txt'', ''10''), (''b.txt'', ''30'')] 100) = [''10'', ''30'']"
  "liv_xList (LIVDataProcessor_ctor sort_key sort_key sample_toDouble
      [''a.txt'' \<mapsto> [[1 / 10, 1, 0], [1 / 5, 1, 2], [3 / 10, 1, 4]],
       ''b.txt'' \<mapsto> [[1 / 10, 1, 0], [1 / 5, 1, 1 / 25]]]
      [(''a.txt'', ''10''), (''b.txt'', ''30'')] 100) = [[1 / 10, 1 / 5, 3 / 10], [1 / 10, 1 / 5]]"
  "liv_y2List (LIVDataProcessor_ctor sort_key sort_key sample_toDouble
      [''a.txt'' \<mapsto> [[1 / 10, 1, 0], [1 / 5, 1, 2], [3 / 10, 1, 4]],
       ''b.txt'' \<mapsto> [[1 / 10, 1, 0], [1 / 5, 1, 1 / 25]]]
      [(''a.txt'', ''10''), (''b.txt'', ''30'')] 100) = [[0, 50, 100], [0, 1]]"
  using DBL_MAX_pos
  by (simp_all add: LIVDataProcessor_ctor_def LIV_normalizeData_def LIV_parsed_def
      LIV_generateVectors_def LIV_sorted_traces_def LIV_read_trace_def
      LIV_generateVectorsFromFile_def LIV_initial_def LIV_append_trace_fields Let_def
      sample_toDouble_def)


theorem threshold_analysis_witness:
  "IthDataProcessor_ctor sample_toDouble
     (LIVDataProcessor_ctor sort_key sort_key sample_toDouble
        [''a.txt'' \<mapsto> [[1 / 10, 1, 0], [1 / 5, 1, 2], [3 / 10, 1, 4]],
         ''b.txt'' \<mapsto> [[1 / 10, 1, 0], [1 / 5, 1, 1 / 25]]]
        [(''a.txt'', ''10''), (''b.txt'', ''30'')] 100)
     3
     \<lparr>ith_T = [], ith_Ith = [], ith_DR = [], ith_A_exp = 0, ith_B_exp = 0, ith_C0_exp = 0,
      ith_polynomialCoefficients = []\<rparr> =
   Inr \<lparr>ith_T = [10], ith_Ith = [1 / 5], ith_DR = [100], ith_A_exp = 0, ith_B_exp = 0,
        ith_C0_exp = 0, ith_polynomialCoefficients = []\<rparr>"
proof -
  let ?data = "LIVDataProcessor_ctor sort_key sort_key sample_toDouble
        [''a.txt'' \<mapsto> [[1 / 10, 1, 0], [1 / 5, 1, 2], [3 / 10, 1, 4]],
         ''b.txt'' \<mapsto> [[1 / 10, 1, 0], [1 / 5, 1, 1 / 25]]]
        [(''a.txt'', ''10''), (''b.txt'', ''30'')] 100"
  let ?uninit = "\<lparr>ith_T = [], ith_Ith = [], ith_DR = [], ith_A_exp = 0, ith_B_exp = 0,
      ith_C0_exp = 0, ith_polynomialCoefficients = []\<rparr>"
  note d = two_LIV_traces_constructed
  have h1: "length (liv_xList ?data) = length (liv_valueList ?data)"
    and h2: "length (liv_y2List ?data) = length (liv_valueList ?data)"
    by (simp_all only: d) simp_all
  have h3: "\<forall>I\<in>set (liv_xList ?data). \<forall>v\<in>set I. - DBL_MAX \<le> v \<and> v \<le> DBL_MAX"
    using DBL_MAX_ge_1 by (simp only: d) simp
  from threshold_analysis [OF h1 h2 h3, of sample_toDouble 3 ?uninit]
  obtain st' where ok: "IthDataProcessor_ctor sample_toDouble ?data 3 ?uninit = Inr st'"
    by blast
  have "IthDataProcessor_ctor sample_toDouble data 3 ?uninit =
      Inr \<lparr>ith_T = [10], ith_Ith = [1 / 5], ith_DR = [100], ith_A_exp = 0, ith_B_exp = 0,
        ith_C0_exp = 0, ith_polynomialCoefficients = []\<rparr>"
    if "liv_valueList data = [''10'', ''30'']"
      and "liv_xList data = [[1 / 10, 1 / 5, 3 / 10], [1 / 10, 1 / 5]]"
      and "liv_y2List data = [[0, 50, 100], [0, 1]]" for data
    using DBL_MAX_ge_1 that
    by (simp add: IthDataProcessor_ctor_def process_def process_trace_def
        dynamic_range_bounds_def sample_toDouble_def Let_def upt_rec [of 0] upt_rec [of 1]
        upt_rec [of 2])
  from this [OF d]
  have "IthDataProcessor_ctor sample_toDouble ?data 3 ?uninit =
      Inr \<lparr>ith_T = [10], ith_Ith = [1 / 5], ith_DR = [100], ith_A_exp = 0, ith_B_exp = 0,
        ith_C0_exp = 0, ith_polynomialCoefficients = []\<rparr>" .
  with ok show ?thesis
    by simp
qed


section \<open>Fits of the threshold current\<close>

lemma sum_list_upt_sum:
  "sum_list (map f [0..<n]) = (\<Sum>i<n. f i)"
  by (simp add: interv_sum_list_conv_sum_set_nat atLeast0LessThan)

lemma exponentialFit_cases:
  assumes "length x \<le> length y"
  shows "exponentialFit st x y (A, B, C0) =
     (if length x < 2 then Inr (False, (A, B, C0), st)
      else if (\<exists>i<length x. y ! i - (99 / 100) * Min (set y) \<le> 0)
        then Inr (False, (A, B, Min (set y)), st)
      else if real (length x) * (\<Sum>i<length x. x ! i * x ! i) -
              (\<Sum>i<length x. x ! i) * (\<Sum>i<length x. x ! i) = 0
        then Inr (False, (A, B, Min (set y)), st)
      else
        let B' = (real (length x) * (\<Sum>i<length x. x ! i * ln (y ! i - (99 / 100) * Min (set y))) -
                  (\<Sum>i<length x. x ! i) * (\<Sum>i<length x. ln (y ! i - (99 / 100) * Min (set y)))) /
                 (real (length x) * (\<Sum>i<length x. x ! i * x ! i) -
                  (\<Sum>i<length x. x ! i) * (\<Sum>i<length x. x ! i));
            A' = exp (((\<Sum>i<length x. ln (y ! i - (99 / 100) * Min (set y))) -
                       B' * (\<Sum>i<length x. x ! i)) / real (length x))
        in Inr (True, (A', B', Min (set y)),
                st\<lparr>ith_A_exp := A', ith_B_exp := B', ith_C0_exp := Min (set y)\<rparr>))"
proof -
  define n where "n = length x"
  define adj where "adj i = y ! i - (99 / 100) * Min (set y)" for i
  define sumX where "sumX = (\<Sum>i<n. x ! i)"
  define sumY where "sumY = (\<Sum>i<n. ln (adj i))"
  define sumXX where "sumXX = (\<Sum>i<n. x ! i * x ! i)"
  define sumXY where "sumXY = (\<Sum>i<n. x ! i * ln (adj i))"
  have ex: "list_ex (\<lambda>v. v \<le> 0) (map adj [0..<n]) \<longleftrightarrow> (\<exists>i<n. adj i \<le> 0)"
    by (auto simp: list_ex_iff)
  have sY: "sum_list (map ((!) (map (ln \<circ> adj) [0..<n])) [0..<n]) = sumY"
  proof -
    have "map ((!) (map (ln \<circ> adj) [0..<n])) [0..<n] = map (\<lambda>i. ln (adj i)) [0..<n]"
      by (simp add: map_eq_conv)
    then show ?thesis
      by (simp only: sumY_def sum_list_upt_sum)
  qed
  have sXY: "sum_list (map (\<lambda>i. x ! i * map (ln \<circ> adj) [0..<n] ! i) [0..<n]) = sumXY"
  proof -
    have "map (\<lambda>i. x ! i * map (ln \<circ> adj) [0..<n] ! i) [0..<n] = map (\<lambda>i. x ! i * ln (adj i)) [0..<n]"
      by (simp add: map_eq_conv)
    then show ?thesis
      by (simp only: sumXY_def sum_list_upt_sum)
  qed
  have sX: "sum_list (map (\<lambda>i. x ! i) [0..<n]) = sumX"
    and sXX: "sum_list (map (\<lambda>i. x ! i * x ! i) [0..<n]) = sumXX"
    by (simp_all only: sumX_def sumXX_def sum_list_upt_sum)
  show ?thesis
    using assms
    unfolding exponentialFit_def Let_def n_def [symmetric] adj_def [symmetric]
      sumX_def [symmetric] sumY_def [symmetric] sumXX_def [symmetric] sumXY_def [symmetric]
    by (simp add: ex sY sXY sX sXX) blast
qed

lemma round_to_double_eq:
  assumes "k \<le> 1074"
    and "2 ^ 52 / 2 ^ k \<le> \<bar>v\<bar>" and "\<bar>v\<bar> < 2 ^ 53 / 2 ^ k"
    and "r = real_of_int (round_half_even (v * 2 ^ k)) / 2 ^ k"
  shows "round_to_double v = r"
proof -
  define e :: int where "e = 52 - int k"
  have u: "2 powr real_of_int (e - 52) = 1 / 2 ^ k"
    by (simp add: e_def powr_minus powr_realpow inverse_eq_divide)
  have p52: "2 ^ 52 / 2 ^ k = 2 powr real_of_int e"
  proof -
    have "2 powr real_of_int e = 2 powr (52 + - real k)"
      by (simp add: e_def)
    also have "\<dots> = 2 powr 52 * 2 powr (- real k)"
      by (simp only: powr_add)
    finally show ?thesis
      by (simp add: powr_minus powr_realpow inverse_eq_divide)
  qed
  have p53: "2 ^ 53 / 2 ^ k = 2 powr real_of_int (e + 1)"
  proof -
    have "2 powr real_of_int (e + 1) = 2 powr (53 + - real k)"
      by (simp add: e_def)
    also have "\<dots> = 2 powr 53 * 2 powr (- real k)"
      by (simp only: powr_add)
    finally show ?thesis
      by (simp add: powr_minus powr_realpow inverse_eq_divide)
  qed
  have pos: "0 < \<bar>v\<bar>"
    using assms(2) by (simp only: p52) (rule less_le_trans [of 0 "2 powr real_of_int e"], simp_all)
  then have v0: "v \<noteq> 0"
    by simp
  have "2 powr real_of_int e \<le> \<bar>v\<bar>"
    using assms(2) by (simp only: p52)
  then have lo: "real_of_int e \<le> log 2 \<bar>v\<bar>"
    using pos by (simp add: le_log_iff)
  have "\<bar>v\<bar> < 2 powr real_of_int (e + 1)"
    using assms(3) by (simp only: p53)
  then have hi: "log 2 \<bar>v\<bar> < real_of_int (e + 1)"
    using pos by (simp add: log_less_iff)
  have fl: "\<lfloor>log 2 \<bar>v\<bar>\<rfloor> = e"
    using lo hi by (simp add: floor_eq_iff)
  have m: "max e (- 1022) = e"
    using assms(1) by (simp add: e_def)
  have u': "2 powr (real_of_int e - 52) = 1 / 2 ^ k"
    using u by simp
  show ?thesis
    using v0 by (simp add: round_to_double_def Let_def fl m u' assms(4))
qed

text \<open>
  The roundings that the fit performs on three points at the temperature 10.1 with the
  threshold currents 0.5, 0.6 and 0.7, and the doubles nearest to 10.1, 0.6 and 0.7.
\<close>

lemma fit_round_1: "round_to_double (99 / 100) = 4458563631096791 / 4503599627370496"
  by (rule round_to_double_eq [where k = 53]) (simp_all add: round_half_even_def)

lemma fit_round_2: "round_to_double (4458563631096791 / 9007199254740992) = 4458563631096791 / 9007199254740992"
  by (rule round_to_double_eq [where k = 54]) (simp_all add: round_half_even_def)

lemma fit_round_3: "round_to_double (45035996273705 / 9007199254740992) = 45035996273705 / 9007199254740992"
  by (rule round_to_double_eq [where k = 60]) (simp_all add: round_half_even_def)

lemma fit_round_4: "round_to_double (236438980436951 / 2251799813685248) = 236438980436951 / 2251799813685248"
  by (rule round_to_double_eq [where k = 56]) (simp_all add: round_half_even_def)

lemma fit_round_5: "round_to_double (1846475847221903 / 9007199254740992) = 1846475847221903 / 9007199254740992"
  by (rule round_to_double_eq [where k = 55]) (simp_all add: round_half_even_def)

lemma fit_round_6: "round_to_double (5685794529555251 / 562949953421312) = 5685794529555251 / 562949953421312"
  by (rule round_to_double_eq [where k = 49]) (simp_all add: round_half_even_def)

lemma fit_round_7: "round_to_double (32328259432320418037351861673001 / 316912650057057350374175801344) = 448644724597719 / 4398046511104"
  by (rule round_to_double_eq [where k = 46]) (simp_all add: round_half_even_def)

lemma fit_round_8: "round_to_double (448644724597719 / 4398046511104) = 448644724597719 / 4398046511104"
  by (rule round_to_double_eq [where k = 46]) (simp_all add: round_half_even_def)

lemma fit_round_9: "round_to_double (5685794529555251 / 281474976710656) = 5685794529555251 / 281474976710656"
  by (rule round_to_double_eq [where k = 48]) (simp_all add: round_half_even_def)

lemma fit_round_10: "round_to_double (448644724597719 / 2199023255552) = 448644724597719 / 2199023255552"
  by (rule round_to_double_eq [where k = 45]) (simp_all add: round_half_even_def)

lemma fit_round_11: "round_to_double (17057383588665753 / 562949953421312) = 2132172948583219 / 70368744177664"
  by (rule round_to_double_eq [where k = 48]) (simp_all add: round_half_even_def)

lemma fit_round_12: "round_to_double (1345934173793157 / 4398046511104) = 1345934173793157 / 4398046511104"
  by (rule round_to_double_eq [where k = 44]) (simp_all add: round_half_even_def)

lemma fit_round_13: "round_to_double (4037802521379471 / 4398046511104) = 4037802521379471 / 4398046511104"
  by (rule round_to_double_eq [where k = 43]) (simp_all add: round_half_even_def)

lemma fit_round_14: "round_to_double (4546161482670058253459368401961 / 4951760157141521099596496896) = 8075605042758941 / 8796093022208"
  by (rule round_to_double_eq [where k = 43]) (simp_all add: round_half_even_def)

lemma fit_round_15: "round_to_double (1 / 8796093022208) = 1 / 8796093022208"
  by (rule round_to_double_eq [where k = 95]) (simp_all add: round_half_even_def)

lemma fit_round_16: "round_to_double (101 / 10) = 5685794529555251 / 562949953421312"
  by (rule round_to_double_eq [where k = 49]) (simp_all add: round_half_even_def)

lemma fit_round_17: "round_to_double (3 / 5) = 5404319552844595 / 9007199254740992"
  by (rule round_to_double_eq [where k = 53]) (simp_all add: round_half_even_def)

lemma fit_round_18: "round_to_double (7 / 10) = 3152519739159347 / 4503599627370496"
  by (rule round_to_double_eq [where k = 53]) (simp_all add: round_half_even_def)

text \<open>
  Claim C6 does not hold of the code. Take three points at the same temperature 10.1 with
  the threshold currents 0.5, 0.6 and 0.7, each number being the double nearest to it.
  The least-squares denominator \<open>n * Sum(x^2) - (Sum x)^2\<close> of these points is 0, and the
  fit computed with real numbers reports failure, as the claim says. In double arithmetic
  \<open>n * sumXX\<close> and \<open>sumX * sumX\<close> round to neighbouring doubles, the computed denominator
  is \<open>2 ^ -43\<close>, the test \<open>denominator == 0\<close> does not fire, and \<open>exponentialFit\<close>
  reports success, whatever \<open>std::log\<close> and \<open>std::exp\<close> return. The slope \<open>B\<close> it stores
  is a quotient of rounding errors. The three roundings of the denominator are the
  lemmas \<open>fit_round_13\<close>, \<open>fit_round_14\<close> and \<open>fit_round_15\<close>.
\<close>

theorem exponentialFit_succeeds_on_equal_temperatures:
  "round_to_double (101 / 10) = 5685794529555251 / 2 ^ 49 \<and>
   round_to_double (6 / 10) = 5404319552844595 / 2 ^ 53 \<and>
   round_to_double (7 / 10) = 3152519739159347 / 2 ^ 52 \<and>
   (\<exists>A' B' st'.
      exponentialFit_double dlog dexp st
        [5685794529555251 / 2 ^ 49, 5685794529555251 / 2 ^ 49, 5685794529555251 / 2 ^ 49]
        [1 / 2, 5404319552844595 / 2 ^ 53, 3152519739159347 / 2 ^ 52] (A, B, C0) =
      Inr (True, (A', B', 1 / 2), st')) \<and>
   exponentialFit st
     [5685794529555251 / 2 ^ 49, 5685794529555251 / 2 ^ 49, 5685794529555251 / 2 ^ 49]
     [1 / 2, 5404319552844595 / 2 ^ 53, 3152519739159347 / 2 ^ 52] (A, B, C0) =
   Inr (False, (A, B, 1 / 2), st)"
proof (intro conjI)
  show "round_to_double (101 / 10) = 5685794529555251 / 2 ^ 49"
    by (simp add: fit_round_16)
  show "round_to_double (6 / 10) = 5404319552844595 / 2 ^ 53"
    by (simp add: fit_round_17)
  show "round_to_double (7 / 10) = 3152519739159347 / 2 ^ 52"
    by (simp add: fit_round_18)
  show "\<exists>A' B' st'.
      exponentialFit_double dlog dexp st
        [5685794529555251 / 2 ^ 49, 5685794529555251 / 2 ^ 49, 5685794529555251 / 2 ^ 49]
        [1 / 2, 5404319552844595 / 2 ^ 53, 3152519739159347 / 2 ^ 52] (A, B, C0) =
      Inr (True, (A', B', 1 / 2), st')"
    by (simp add: exponentialFit_double_def Let_def upt_rec [of _ "numeral _"] upt_rec [of 0]
        fit_round_1 fit_round_2 fit_round_3 fit_round_4 fit_round_5 fit_round_6 fit_round_7
        fit_round_8 fit_round_9 fit_round_10 fit_round_11 fit_round_12 fit_round_13 fit_round_14
        fit_round_15)
  show "exponentialFit st
     [5685794529555251 / 2 ^ 49, 5685794529555251 / 2 ^ 49, 5685794529555251 / 2 ^ 49]
     [1 / 2, 5404319552844595 / 2 ^ 53, 3152519739159347 / 2 ^ 52] (A, B, C0) =
   Inr (False, (A, B, 1 / 2), st)"
    by (simp add: exponentialFit_def Let_def upt_rec [of _ "numeral _"] upt_rec [of 0])
qed

lemma exponentialFit_no_error:
  assumes "length x \<le> length y"
  shows "\<not> isl (exponentialFit st x y abc)"
proof -
  obtain A B C0 where abc: "abc = (A, B, C0)"
    by (metis prod_cases3)
  show ?thesis
    unfolding abc
    by (simp only: exponentialFit_cases [OF assms] Let_def sum.disc simp_thms split: if_split)
qed

text \<open>
  Claim C10, as the code has it. \<open>Ith\<close> is as long as \<open>T\<close>, as \<open>process\<close> leaves them.
  \<open>applyExponentialFit\<close> reads out of bounds exactly when \<open>T\<close> is empty, divides by
  zero exactly when \<open>T\<close> is not empty and \<open>numPoints = 1\<close>, and has no other error.
  \<open>applyPolynomialFit\<close> has an error exactly when \<open>T\<close> is empty, \<open>numPoints = 1\<close>, or
  \<open>polynomialFit\<close> itself has one. So \<open>numPoints \<ge> 2\<close> with a non-empty \<open>T\<close> is enough
  for \<open>applyExponentialFit\<close>, and \<open>numPoints \<le> 0\<close> is harmless as well.
\<close>

theorem fit_error_branches:
  assumes "length (ith_Ith st) = length (ith_T st)"
  shows "(applyExponentialFit st locals numPoints = Inl OutOfBounds \<longleftrightarrow> ith_T st = []) \<and>
         (applyExponentialFit st locals numPoints = Inl DivisionByZero \<longleftrightarrow>
            ith_T st \<noteq> [] \<and> numPoints = 1) \<and>
         (isl (applyExponentialFit st locals numPoints) \<longleftrightarrow> ith_T st = [] \<or> numPoints = 1) \<and>
         (isl (applyPolynomialFit st numPoints order) \<longleftrightarrow>
            ith_T st = [] \<or> numPoints = 1 \<or>
            isl (polynomialFit st (ith_T st) (ith_Ith st) order []))"
proof -
  from exponentialFit_no_error [of "ith_T st" "ith_Ith st" st locals] assms
  have "\<not> isl (exponentialFit st (ith_T st) (ith_Ith st) locals)"
    by simp
  then obtain r where r: "exponentialFit st (ith_T st) (ith_Ith st) locals = Inr r"
    by (cases "exponentialFit st (ith_T st) (ith_Ith st) locals") simp_all
  obtain ok A B C0 st' where r': "r = (ok, (A, B, C0), st')"
    by (metis prod_cases3)
  have e: "applyExponentialFit st locals numPoints =
      (if ith_T st = [] then Inl OutOfBounds
       else if numPoints = 1 then Inl DivisionByZero
       else Inr ((map (\<lambda>i. hd (ith_T st) + real i * ((last (ith_T st) - hd (ith_T st)) / real_of_int (numPoints - 1)))
                    [0..<nat numPoints],
                  if \<not> ok then []
                  else map (\<lambda>t. A * exp (B * t) + C0)
                         (map (\<lambda>i. hd (ith_T st) + real i * ((last (ith_T st) - hd (ith_T st)) / real_of_int (numPoints - 1)))
                            [0..<nat numPoints])),
                 st'))"
    by (simp add: applyExponentialFit_def first_def last_elem_def linspace_def Let_def r r')
  have p: "isl (applyPolynomialFit st numPoints order) \<longleftrightarrow>
            ith_T st = [] \<or> numPoints = 1 \<or>
            isl (polynomialFit st (ith_T st) (ith_Ith st) order [])"
    by (cases "polynomialFit st (ith_T st) (ith_Ith st) order []")
      (auto simp: applyPolynomialFit_def first_def last_elem_def linspace_def Let_def
        split: prod.splits)
  show ?thesis
    unfolding e using p by simp
qed

text \<open>
  Claim C10 as stated makes \<open>numPoints \<ge> 2\<close> necessary. With one stored temperature and
  \<open>numPoints = 0\<close> no error branch is reached: \<open>linspace\<close> divides by \<open>-1\<close> and returns
  no points.
\<close>

theorem no_points_requested_is_no_error:
  "applyExponentialFit
     \<lparr>ith_T = [5], ith_Ith = [1], ith_DR = [0], ith_A_exp = 0, ith_B_exp = 0, ith_C0_exp = 0,
      ith_polynomialCoefficients = []\<rparr> (0, 0, 0) 0 =
   Inr (([], []),
        \<lparr>ith_T = [5], ith_Ith = [1], ith_DR = [0], ith_A_exp = 0, ith_B_exp = 0, ith_C0_exp = 0,
         ith_polynomialCoefficients = []\<rparr>)"
  by (simp add: applyExponentialFit_def first_def last_elem_def linspace_def exponentialFit_def)


theorem fit_error_branches_witness:
  "\<not> isl (applyExponentialFit
       \<lparr>ith_T = [1, 2], ith_Ith = [1, 2], ith_DR = [0, 0], ith_A_exp = 0, ith_B_exp = 0,
        ith_C0_exp = 0, ith_polynomialCoefficients = []\<rparr> (0, 0, 0) 3) \<and>
   isl (applyExponentialFit
       \<lparr>ith_T = [1, 2], ith_Ith = [1, 2], ith_DR = [0, 0], ith_A_exp = 0, ith_B_exp = 0,
        ith_C0_exp = 0, ith_polynomialCoefficients = []\<rparr> (0, 0, 0) 1) \<and>
   isl (applyPolynomialFit
       \<lparr>ith_T = [1, 2], ith_Ith = [1, 2], ith_DR = [0, 0], ith_A_exp = 0, ith_B_exp = 0,
        ith_C0_exp = 0, ith_polynomialCoefficients = []\<rparr> 1 1)"
proof -
  let ?st = "\<lparr>ith_T = [1, 2], ith_Ith = [1, 2], ith_DR = [0, 0], ith_A_exp = 0, ith_B_exp = 0,
        ith_C0_exp = 0, ith_polynomialCoefficients = []\<rparr>"
  have len: "length (ith_Ith ?st) = length (ith_T ?st)"
    by simp
  from fit_error_branches [OF len, of "(0, 0, 0)" 3]
  have a: "\<not> isl (applyExponentialFit ?st (0, 0, 0) 3)"
    by simp
  from fit_error_branches [OF len, of "(0, 0, 0)" 1 1]
  have "isl (applyExponentialFit ?st (0, 0, 0) 1)" "isl (applyPolynomialFit ?st 1 1)"
    by simp_all
  with a show ?thesis
    by blast
qed

text \<open>
  \<open>polynomialFit\<close> on two points of a line recovers the line; on two points with the
  same temperature the normal equations are singular and the back substitution divides
  by a zero pivot.
\<close>

lemma polynomialFit_repeated_temperature:
  "polynomialFit
     \<lparr>ith_T = [1, 1], ith_Ith = [1, 2], ith_DR = [0, 0], ith_A_exp = 0, ith_B_exp = 0, ith_C0_exp = 0,
      ith_polynomialCoefficients = []\<rparr> [1, 1] [1, 2] 1 [] = Inl DivisionByZero"
  by code_simp

lemma polynomialFit_line:
  "polynomialFit
     \<lparr>ith_T = [1, 2], ith_Ith = [3, 5], ith_DR = [0, 0], ith_A_exp = 0, ith_B_exp = 0, ith_C0_exp = 0,
      ith_polynomialCoefficients = []\<rparr> [1, 2] [3, 5] 1 [] =
   Inr (True, [1, 2],
     \<lparr>ith_T = [1, 2], ith_Ith = [3, 5], ith_DR = [0, 0], ith_A_exp = 0, ith_B_exp = 0, ith_C0_exp = 0,
      ith_polynomialCoefficients = [1, 2]\<rparr>)"
  by code_simp


end
